theory Spec2Isabelle
  imports Main
begin

section \<open>The query execution core of Nano-SQL\<close>

text \<open>
  A shallow embedding of the query class of the database engine (the source file
  with the classes \<open>_NanoSQLStorageQuery\<close>, \<open>_MutateSelection\<close>, \<open>_RowSelection\<close>,
  \<open>InstanceSelection\<close> and the functions \<open>_where\<close> and \<open>_compare\<close>).

  Naming: the source marks its internal members with a leading underscore, which an
  Isabelle name cannot start with; such a member \<open>_name\<close> is called \<open>x_name\<close> here.
  Everything else keeps the name it has in the source.
\<close>

subsection \<open>Values, rows and errors\<close>

text \<open>
  Row values are dynamically typed. The fragment modelled here has \<open>undefined\<close>,
  \<open>null\<close>, booleans, integral numbers, strings and arrays; nested objects are left
  out. Numbers are mathematical integers: fractions, \<open>NaN\<close> and the infinities are
  outside the fragment. A row is an object, here the list of its fields in insertion
  order.
\<close>

datatype val = Undefined | Null | Bool bool | Num int | Str string | Arr "val list"

type_synonym row = "(string \<times> val) list"

text \<open>
  A thrown exception is a value: \<open>TypeError\<close> is what the host language raises on a
  property access on \<open>null\<close> or \<open>undefined\<close> and on a call of a missing method;
  \<open>QueryError msg\<close> is \<open>throw new Error(msg)\<close> of the source.
  \<open>NoReturn\<close> stands for a loop that never ends: like a raise, nothing that follows it
  happens.
\<close>

datatype error = TypeError | QueryError string | NoReturn

text \<open>\<open>row[k]\<close>: a missing field reads as \<open>undefined\<close>.\<close>

definition getf :: "row \<Rightarrow> string \<Rightarrow> val" where
  "getf r k = (case map_of r k of None \<Rightarrow> Undefined | Some v \<Rightarrow> v)"

text \<open>Truthiness, as \<open>||\<close>, \<open>!\<close>, \<open>if\<close> and \<open>filter(v => v)\<close> read a value.\<close>

fun truthy :: "val \<Rightarrow> bool" where
  "truthy Undefined = False"
| "truthy Null = False"
| "truthy (Bool b) = b"
| "truthy (Num n) = (n \<noteq> 0)"
| "truthy (Str s) = (s \<noteq> [])"
| "truthy (Arr xs) = True"

text \<open>
  Strict equality \<open>===\<close>. Scalars compare by value. An array is an object and compares
  by reference; wherever the source applies \<open>===\<close> or \<open>indexOf\<close> to an array the two
  operands come from different places (a stored row and the query, or two rows), so
  they are different objects and the comparison is false.
\<close>

fun strict_eq :: "val \<Rightarrow> val \<Rightarrow> bool" where
  "strict_eq (Arr xs) v = False"
| "strict_eq v (Arr ys) = False"
| "strict_eq a b = (a = b)"

text \<open>\<open>String(v)\<close> on the fragment: decimal digits for a number, the elements joined by
  commas for an array (\<open>null\<close> and \<open>undefined\<close> elements print as the empty string).\<close>

definition digit_char :: "nat \<Rightarrow> char" where
  "digit_char d = char_of (48 + d)"

function string_of_nat :: "nat \<Rightarrow> string" where
  "string_of_nat n = (if n < 10 then [digit_char n] else string_of_nat (n div 10) @ [digit_char (n mod 10)])"
  by pat_completeness auto
termination
  by (relation "measure (\<lambda>n. n)") auto

definition string_of_int :: "int \<Rightarrow> string" where
  "string_of_int i = (if i < 0 then CHR ''-'' # string_of_nat (nat (- i)) else string_of_nat (nat i))"

fun join_comma :: "string list \<Rightarrow> string" where
  "join_comma [] = []"
| "join_comma [s] = s"
| "join_comma (s # t # ss) = s @ '','' @ join_comma (t # ss)"

fun js_String :: "val \<Rightarrow> string" where
  "js_String Undefined = ''undefined''"
| "js_String Null = ''null''"
| "js_String (Bool b) = (if b then ''true'' else ''false'')"
| "js_String (Num n) = string_of_int n"
| "js_String (Str s) = s"
| "js_String (Arr xs) =
     join_comma (map (\<lambda>x. if x = Null \<or> x = Undefined then [] else js_String x) xs)"

text \<open>\<open>toLowerCase\<close> on the ASCII letters.\<close>

definition lower_char :: "char \<Rightarrow> char" where
  "lower_char c = (let n = (of_char c :: nat) in if 65 \<le> n \<and> n \<le> 90 then char_of (n + 32) else c)"

definition toLowerCase :: "string \<Rightarrow> string" where
  "toLowerCase s = map lower_char s"

text \<open>\<open>s.indexOf(p) !== -1\<close> on strings: \<open>p\<close> occurs in \<open>s\<close> as a contiguous substring.\<close>

fun starts_with :: "string \<Rightarrow> string \<Rightarrow> bool" where
  "starts_with s [] = True"
| "starts_with [] (p # ps) = False"
| "starts_with (c # cs) (p # ps) = (c = p \<and> starts_with cs ps)"

fun str_includes :: "string \<Rightarrow> string \<Rightarrow> bool" where
  "str_includes [] p = (p = [])"
| "str_includes (c # cs) p = (starts_with (c # cs) p \<or> str_includes cs p)"

subsection \<open>Collaborators outside the source file\<close>

text \<open>
  The query class calls functions of the host language and of modules of the
  repository that are not part of the source file. They are parameters of the model:
  \<^item> \<open>objQuery path row ignoreFirstPath\<close>: the dotted path resolution of the utilities
    module;
  \<^item> \<open>js_less a b\<close>: the abstract relational comparison \<open>a < b\<close> of the host language,
    \<open>None\<close> when it is undefined (an operand converts to \<open>NaN\<close>); the four relational
    operators are defined from it as the language standard does;
  \<open>js_match s p\<close>: whether \<open>s.match(p)\<close> finds a match.
\<close>

record env =
  objQuery :: "string \<Rightarrow> row \<Rightarrow> bool \<Rightarrow> val"
  js_less :: "val \<Rightarrow> val \<Rightarrow> bool option"
  js_match :: "string \<Rightarrow> val \<Rightarrow> bool"

subsection \<open>The comparison of one condition: \<open>_compare\<close>\<close>

text \<open>\<open>String(val || "").toLowerCase()\<close> for \<open>LIKE\<close> and \<open>NOT LIKE\<close>, the value itself otherwise.\<close>

definition setValue :: "string \<Rightarrow> val \<Rightarrow> val" where
  "setValue compare v =
     (if compare = ''LIKE'' \<or> compare = ''NOT LIKE''
      then (Str (toLowerCase (js_String (if truthy v then v else (Str [])))))
      else v)"

text \<open>
  \<open>(a || []).indexOf(b) < 0 ? false : true\<close>. On an array \<open>indexOf\<close> searches by strict
  equality, on a string it searches \<open>String(b)\<close> as a substring; a number and \<open>true\<close>
  have no method \<open>indexOf\<close> and the call raises.
\<close>

fun found_in :: "val \<Rightarrow> val \<Rightarrow> error + bool" where
  "found_in (Arr xs) b = Inr (\<exists>x \<in> set xs. strict_eq x b)"
| "found_in (Str s) b = Inr (s \<noteq> [] \<and> str_includes s (js_String b))"
| "found_in a b = (if truthy a then Inl TypeError else Inr False)"

text \<open>\<open>a[i]\<close> for a literal index: an element, a character, \<open>undefined\<close>, or a raise on
  \<open>null\<close> and \<open>undefined\<close>.\<close>

fun js_index :: "val \<Rightarrow> nat \<Rightarrow> error + val" where
  "js_index (Arr xs) i = Inr (if i < length xs then xs ! i else Undefined)"
| "js_index (Str s) i = Inr (if i < length s then Str [s ! i] else Undefined)"
| "js_index Undefined i = Inl TypeError"
| "js_index Null i = Inl TypeError"
| "js_index a i = Inr Undefined"

text \<open>\<open>(c || []).filter(l => (g || []).indexOf(l) > -1).length > 0\<close>: the callback runs on
  the elements in order and the first raise ends the evaluation.\<close>

fun any_found :: "val \<Rightarrow> val list \<Rightarrow> error + bool" where
  "any_found g [] = Inr False"
| "any_found g (l # ls) =
     (case found_in g l of
        Inl err \<Rightarrow> Inl err
      | Inr b \<Rightarrow> (case any_found g ls of Inl err \<Rightarrow> Inl err | Inr b' \<Rightarrow> Inr (b \<or> b')))"

fun intersects :: "val \<Rightarrow> val \<Rightarrow> error + bool" where
  "intersects (Arr xs) g = any_found g xs"
| "intersects c g = (if truthy c then Inl TypeError else Inr False)"

definition neg :: "error + bool \<Rightarrow> error + bool" where
  "neg r = (case r of Inl err \<Rightarrow> Inl err | Inr b \<Rightarrow> Inr (\<not> b))"

definition x_compare :: "env \<Rightarrow> val \<Rightarrow> string \<Rightarrow> val \<Rightarrow> error + bool" where
  "x_compare e val1 compare val2 =
     (let columnValue = setValue compare val2;
          givenValue = setValue compare val1
      in
      if val1 = (Str ''NULL'') \<or> val1 = (Str ''NOT NULL'') then
        (let pos = (compare = ''='' \<or> compare = ''LIKE'');
             absent = (val2 = Null \<or> val2 = Undefined)
         in Inr (if (if val1 = (Str ''NULL'') then absent else \<not> absent) then pos else \<not> pos))
      else if compare = ''='' then Inr (strict_eq columnValue givenValue)
      else if compare = ''!='' then Inr (\<not> strict_eq columnValue givenValue)
      else if compare = ''>'' then Inr (js_less e givenValue columnValue = Some True)
      else if compare = ''<'' then Inr (js_less e columnValue givenValue = Some True)
      else if compare = ''<='' then Inr (js_less e givenValue columnValue = Some False)
      else if compare = ''>='' then Inr (js_less e columnValue givenValue = Some False)
      else if compare = ''IN'' then found_in givenValue columnValue
      else if compare = ''NOT IN'' then neg (found_in givenValue columnValue)
      else if compare = ''REGEX'' then
        (case columnValue of
           Str s \<Rightarrow> if js_match e s givenValue then Inr True else Inl TypeError
         | _ \<Rightarrow> Inl TypeError)
      else if compare = ''LIKE'' then
        Inr (str_includes (toLowerCase (js_String (if truthy columnValue then columnValue else (Str []))))
               (js_String givenValue))
      else if compare = ''NOT LIKE'' then
        Inr (\<not> str_includes (toLowerCase (js_String (if truthy columnValue then columnValue else (Str []))))
                 (js_String givenValue))
      else if compare = ''BETWEEN'' then
        (case js_index givenValue 0 of
           Inl err \<Rightarrow> Inl err
         | Inr g0 \<Rightarrow>
             if js_less e columnValue g0 = Some False then
               (case js_index givenValue 1 of
                  Inl err \<Rightarrow> Inl err
                | Inr g1 \<Rightarrow> Inr (js_less e g1 columnValue = Some False))
             else Inr False)
      else if compare = ''HAVE'' then found_in columnValue givenValue
      else if compare = ''NOT HAVE'' then neg (found_in columnValue givenValue)
      else if compare = ''INTERSECT'' then intersects columnValue givenValue
      else if compare = ''NOT INTERSECT'' then neg (intersects columnValue givenValue)
      else Inr False)"

subsection \<open>The evaluator of a WHERE or HAVING clause: \<open>_where\<close>\<close>

text \<open>
  A clause is an array: either one condition \<open>[path, op, value]\<close> (its first element
  is a string) or a compound list whose elements at even positions are conditions and
  at odd positions connectives. An element of a compound list is a condition
  (\<open>WLeaf path op value\<close>) or a string (\<open>WConn s\<close>); the first element of a compound
  list is not a string, since the source reads an array that starts with a string as
  one condition.
\<close>

datatype warg = WLeaf string string val | WConn string

datatype wclause = WSingle string string val | WCompound "warg list"

text \<open>
  The source reads the element at an even position as \<open>wArg[0]\<close>, \<open>wArg[1]\<close>,
  \<open>wArg[2]\<close> whatever it is. On a string these are its first three characters
  (\<open>undefined\<close> where the string is shorter); \<open>wArg[0].indexOf\<close> raises on the empty
  string. An operator that is \<open>undefined\<close> matches no case of \<open>_compare\<close>, like the
  empty operator that stands for it here.
\<close>

fun leaf_of :: "warg \<Rightarrow> error + (string \<times> string \<times> val)" where
  "leaf_of (WLeaf p c v) = Inr (p, c, v)"
| "leaf_of (WConn s) =
     (if s = [] then Inl TypeError
      else Inr ([s ! 0],
                (if 1 < length s then [s ! 1] else []),
                (if 2 < length s then (Str [s ! 2]) else Undefined)))"

text \<open>
  The search cache of a full table scan: the rows found by the search conditions of
  the clause, by the position of the condition in the clause.
\<close>

type_synonym search_cache = "(nat \<times> row list) list"

text \<open>
  \<open>compareResult\<close> of the condition at position \<open>idx\<close>: the lookup of the row's primary
  key in the search cache when the path is a \<open>search(...)\<close> expression and a cache was
  passed, \<open>_compare\<close> on the resolved path otherwise.
\<close>

definition compareResult ::
  "env \<Rightarrow> row \<Rightarrow> bool \<Rightarrow> search_cache option \<Rightarrow> string \<Rightarrow> nat \<Rightarrow> warg \<Rightarrow> error + bool" where
  "compareResult e singleRow ignoreFirstPath searchCache pk idx wArg =
     (case leaf_of wArg of
        Inl err \<Rightarrow> Inl err
      | Inr (p, c, v) \<Rightarrow>
          (case searchCache of
             Some sc \<Rightarrow>
               if str_includes p ''search('' then
                 (case map_of sc idx of
                    None \<Rightarrow> Inl TypeError
                  | Some rs \<Rightarrow> Inr (\<exists>r \<in> set rs. strict_eq (getf r pk) (getf singleRow pk)))
               else x_compare e v c (objQuery e p singleRow ignoreFirstPath)
           | None \<Rightarrow> x_compare e v c (objQuery e p singleRow ignoreFirstPath)))"

text \<open>
  The \<open>reduce\<close> over the compound list. Its state is the accumulator \<open>prev\<close> and the two
  variables of the closure, \<open>decided\<close> and \<open>prevCondition\<close>. The list \<open>tr\<close> records the
  positions whose condition was evaluated, in order; it is returned beside the result.
\<close>

fun where_reduce ::
  "(nat \<Rightarrow> warg \<Rightarrow> error + bool) \<Rightarrow> bool \<Rightarrow> warg list \<Rightarrow> nat \<Rightarrow> bool \<Rightarrow> bool option
     \<Rightarrow> warg option \<Rightarrow> nat list \<Rightarrow> nat list \<times> (error + bool)" where
  "where_reduce ev hasOr [] idx prev decided prevCondition tr = (tr, Inr prev)"
| "where_reduce ev hasOr (wArg # ws) idx prev decided prevCondition tr =
     (case decided of
        Some d \<Rightarrow> where_reduce ev hasOr ws (Suc idx) d decided prevCondition tr
      | None \<Rightarrow>
          if idx mod 2 = 1 then where_reduce ev hasOr ws (Suc idx) prev None (Some wArg) tr
          else
            (case ev idx wArg of
               Inl err \<Rightarrow> (tr @ [idx], Inl err)
             | Inr compareRes \<Rightarrow>
                 if \<not> hasOr \<and> \<not> compareRes then
                   where_reduce ev hasOr ws (Suc idx) False (Some False) prevCondition (tr @ [idx])
                 else if idx = 0 then
                   where_reduce ev hasOr ws (Suc idx) compareRes None prevCondition (tr @ [idx])
                 else if prevCondition = Some (WConn ''AND'') then
                   where_reduce ev hasOr ws (Suc idx) (prev \<and> compareRes) None prevCondition (tr @ [idx])
                 else
                   where_reduce ev hasOr ws (Suc idx) (prev \<or> compareRes) None prevCondition (tr @ [idx])))"

definition where_traced ::
  "env \<Rightarrow> row \<Rightarrow> wclause \<Rightarrow> nat \<Rightarrow> bool \<Rightarrow> search_cache option \<Rightarrow> string \<Rightarrow> nat list \<times> (error + bool)" where
  "where_traced e singleRow wh rowIDX ignoreFirstPath searchCache pk =
     (case wh of
        WCompound ws \<Rightarrow>
          where_reduce (compareResult e singleRow ignoreFirstPath searchCache pk)
            (WConn ''OR'' \<in> set ws) ws 0 False None None []
      | WSingle p c v \<Rightarrow> ([0], x_compare e v c (objQuery e p singleRow ignoreFirstPath)))"

definition x_where ::
  "env \<Rightarrow> row \<Rightarrow> wclause \<Rightarrow> nat \<Rightarrow> bool \<Rightarrow> search_cache option \<Rightarrow> string \<Rightarrow> error + bool" where
  "x_where e singleRow wh rowIDX ignoreFirstPath searchCache pk =
     snd (where_traced e singleRow wh rowIDX ignoreFirstPath searchCache pk)"

text \<open>
  The reading of the specification, to compare the evaluator with: a compound clause
  is a first condition followed by pairs of a connective and a condition, and its value
  is the left-to-right fold of the values of its conditions.
\<close>

fun alternate :: "(string \<times> warg) list \<Rightarrow> warg list" where
  "alternate [] = []"
| "alternate ((c, l) # cls) = WConn c # l # alternate cls"

fun fold_connectives :: "bool \<Rightarrow> (string \<times> bool) list \<Rightarrow> bool" where
  "fold_connectives acc [] = acc"
| "fold_connectives acc ((c, b) # cbs) =
     fold_connectives (if c = ''AND'' then acc \<and> b else acc \<or> b) cbs"

text \<open>The values of the conditions of \<open>alternate cls\<close>, whose first connective stands at
  position \<open>idx\<close>; \<open>None\<close> when a condition raises.\<close>

fun leaf_values :: "(nat \<Rightarrow> warg \<Rightarrow> error + bool) \<Rightarrow> nat \<Rightarrow> (string \<times> warg) list \<Rightarrow> (string \<times> bool) list option" where
  "leaf_values ev idx [] = Some []"
| "leaf_values ev idx ((c, l) # cls) =
     (case ev (Suc idx) l of
        Inl err \<Rightarrow> None
      | Inr b \<Rightarrow> map_option (\<lambda>cbs. (c, b) # cbs) (leaf_values ev (idx + 2) cls))"

text \<open>The even positions from \<open>idx + 1\<close> on, one for each condition of \<open>cls\<close>.\<close>

fun leaf_positions :: "nat \<Rightarrow> (string \<times> warg) list \<Rightarrow> nat list" where
  "leaf_positions idx [] = []"
| "leaf_positions idx ((c, l) # cls) = Suc idx # leaf_positions (idx + 2) cls"

definition is_leaf :: "warg \<Rightarrow> bool" where
  "is_leaf w = (case w of WLeaf p c v \<Rightarrow> True | WConn s \<Rightarrow> False)"

text \<open>A well-formed tail: every connective is \<open>AND\<close> or \<open>OR\<close>, every condition a condition.\<close>

definition well_formed :: "(string \<times> warg) list \<Rightarrow> bool" where
  "well_formed cls = list_all (\<lambda>(c, l). (c = ''AND'' \<or> c = ''OR'') \<and> is_leaf l) cls"

subsection \<open>Rows as objects\<close>

text \<open>\<open>row[k] = v\<close>: an assignment replaces the field or appends it.\<close>

fun setf :: "row \<Rightarrow> string \<Rightarrow> val \<Rightarrow> row" where
  "setf [] k v = [(k, v)]"
| "setf ((k', v') # r) k v = (if k' = k then (k, v) # r else (k', v') # setf r k v)"

text \<open>The object spread \<open>{...a, ...b}\<close>: the fields of \<open>a\<close>, then those of \<open>b\<close> assigned
  over them in order.\<close>

definition spread :: "row \<Rightarrow> row \<Rightarrow> row" where
  "spread a b = foldl (\<lambda>acc (k, v). setf acc k v) a b"

text \<open>
  A row object handed out by the storage adapter may be frozen. The source file has no
  strict directive: an assignment to a field of a frozen object is dropped without an
  error, and the object stays as it is. \<open>_assign\<close> of the utilities module returns a
  copy, which is not frozen.
\<close>

record obj =
  isFrozen :: bool
  fieldsOf :: row

definition assign_field :: "obj \<Rightarrow> string \<Rightarrow> val \<Rightarrow> obj" where
  "assign_field ob k v = (if isFrozen ob then ob else ob\<lparr>fieldsOf := setf (fieldsOf ob) k v\<rparr>)"

definition x_assign :: "obj \<Rightarrow> obj" where
  "x_assign ob = \<lparr> isFrozen = False, fieldsOf = fieldsOf ob \<rparr>"

subsection \<open>Computations with a state and exceptions\<close>

text \<open>
  The source is written with completion callbacks. A step is modelled as a function
  from the state before it to its outcome and the state after it: \<open>Inr x\<close> when the step
  calls its continuation with \<open>x\<close>, \<open>Inl err\<close> when it raises, in which case the
  continuation is never called and the state is the one reached when it raised.
  \<open>fastCHAIN\<close> runs its steps in order; \<open>fastALL\<close> starts them together, and is modelled
  in the order of the list.
\<close>

type_synonym ('s, 'a) exec = "'s \<Rightarrow> (error + 'a) \<times> 's"

definition ret :: "'a \<Rightarrow> ('s, 'a) exec" where
  "ret x s = (Inr x, s)"

definition raise :: "error \<Rightarrow> ('s, 'a) exec" where
  "raise err s = (Inl err, s)"

definition bnd :: "('s, 'a) exec \<Rightarrow> ('a \<Rightarrow> ('s, 'b) exec) \<Rightarrow> ('s, 'b) exec" where
  "bnd m f s = (case m s of (Inl err, s') \<Rightarrow> (Inl err, s') | (Inr x, s') \<Rightarrow> f x s')"

text \<open>A pure step that may raise.\<close>

definition lift :: "error + 'a \<Rightarrow> ('s, 'a) exec" where
  "lift r s = (r, s)"

text \<open>One step for each element of a list, in order; the results are collected.\<close>

fun each :: "('x \<Rightarrow> ('s, 'a) exec) \<Rightarrow> 'x list \<Rightarrow> ('s, 'a list) exec" where
  "each f [] = ret []"
| "each f (x # xs) = bnd (f x) (\<lambda>y. bnd (each f xs) (\<lambda>ys. ret (y # ys)))"

subsection \<open>The store: table descriptors, cache and adapter\<close>

datatype arity = ArrayT | SingleT

datatype view_mode = LIVE | GHOST

text \<open>A view of a table onto another one: the column that holds the key of the row
  referred to and the pairs \<open>(thisColumn, otherColumn)\<close> of the columns copied.\<close>

record view_def =
  pkColumn :: string
  viewColumns :: "(string \<times> string) list"
  viewMode :: view_mode

record relation =
  x_thisColumn :: string
  x_thisType :: arity
  x_fromTable :: string
  x_fromColumn :: string
  x_fromType :: arity

text \<open>\<open>tableInfo[T]\<close>: \<open>x_views\<close> by the table referred to, in the order of
  \<open>Object.keys\<close>; \<open>x_viewTables\<close> the pairs \<open>(table, column)\<close> of the tables with a view
  onto this one.\<close>

record table_info =
  x_pk :: string
  x_views :: "(string \<times> view_def) list"
  x_viewTables :: "(string \<times> string) list"
  x_secondaryIndexes :: "string list"

text \<open>The fields of \<open>_NanoSQLStorage\<close> that are fixed once the tables are declared.\<close>

record schema =
  tableInfo :: "(string \<times> table_info) list"
  x_hasViews :: bool
  x_hasORM :: bool
  x_relToTable :: "(string \<times> relation list) list"
  x_doCache :: bool

text \<open>
  The state of the storage adapter: the rows of every table by primary key, in key
  order, and the log of the calls made to it, which makes "no row is read" a statement
  about the state. Three properties of the adapter are fixed: whether it hands out frozen
  row objects, whether the upper bound of a range read is part of the range, and the key
  it assigns to a row written without one.
\<close>

datatype adapter_op =
    OpRead string "val list"
  | OpScan string
  | OpRangeRead string int int
  | OpGetIndex string
  | OpIndexRead string string val
  | OpTrieRead string string string
  | OpSelect string
  | OpWrite string val
  | OpDelete string val
  | OpDrop string

record adapter =
  rowsOf :: "string \<Rightarrow> (val \<times> row) list"
  oplog :: "adapter_op list"
  freezes :: bool
  toInclusive :: bool
  newKey :: "(val \<times> row) list \<Rightarrow> val"

text \<open>The mutable state of the store: the adapter and the result cache,
  \<open>_cache[T][fingerprint]\<close>; \<open>_cache[T]\<close> is \<open>None\<close> for a table that has no cache object.\<close>

record db =
  adapterOf :: adapter
  x_cache :: "string \<Rightarrow> (string \<times> row list) list option"

definition logged :: "adapter_op \<Rightarrow> (adapter, unit) exec" where
  "logged opn a = (Inr (), a\<lparr>oplog := oplog a @ [opn]\<rparr>)"

text \<open>A step that reads the adapter's state and leaves it as it is, entered in the log.\<close>

definition reading :: "adapter_op \<Rightarrow> (adapter \<Rightarrow> error + 'a) \<Rightarrow> (adapter, 'a) exec" where
  "reading opn f = bnd (logged opn) (\<lambda>u a. (f a, a))"

text \<open>A step on the adapter as a step on the store.\<close>

definition on_adapter :: "(adapter, 'a) exec \<Rightarrow> (db, 'a) exec" where
  "on_adapter m d = (case m (adapterOf d) of (r, a') \<Rightarrow> (r, d\<lparr>adapterOf := a'\<rparr>))"

text \<open>\<open>tableInfo[T]\<close> followed by a property access, which raises when there is no such table.\<close>

definition info :: "schema \<Rightarrow> string \<Rightarrow> ('s, table_info) exec" where
  "info s t = (case map_of (tableInfo s) t of None \<Rightarrow> raise TypeError | Some ti \<Rightarrow> ret ti)"

text \<open>
  Modelled from the spec: the methods of the storage class, which is not part of the
  source file. \<open>read(table, pk)\<close> gives the row or nothing and \<open>batchRead(table, pks)\<close>
  the rows of the keys, in the order asked; keys are numeric or string, so another value
  is the key of no row.
\<close>

fun adapter_read :: "adapter \<Rightarrow> string \<Rightarrow> val \<Rightarrow> row option" where
  "adapter_read a t ((Num n)) = map_of (rowsOf a t) (Num n)"
| "adapter_read a t ((Str s)) = map_of (rowsOf a t) (Str s)"
| "adapter_read a t v = None"

definition store_read :: "string \<Rightarrow> val list \<Rightarrow> (adapter, row list) exec" where
  "store_read t pks = bnd (logged (OpRead t pks)) (\<lambda>u a. (Inr (List.map_filter (adapter_read a t) pks), a))"

text \<open>Modelled from the spec: a read of the whole table delivers its rows in key order.\<close>

definition store_scan :: "string \<Rightarrow> (adapter, row list) exec" where
  "store_scan t = bnd (logged (OpScan t)) (\<lambda>u a. (Inr (map snd (rowsOf a t)), a))"

text \<open>Modelled from the spec: \<open>getIndex(table, lengthOnly)\<close> gives the number of rows.\<close>

definition getIndex_count :: "string \<Rightarrow> (adapter, int) exec" where
  "getIndex_count t = bnd (logged (OpGetIndex t)) (\<lambda>u a. (Inr (int (length (rowsOf a t))), a))"

text \<open>
  Modelled from the spec: \<open>rangeRead(table, from, to, usePK = false)\<close> delivers the rows at
  the positions from \<open>from\<close> to \<open>to\<close> in key order. The spec does not say whether the
  position \<open>to\<close> is part of the range; the adapter's \<open>toInclusive\<close> decides.
\<close>

definition in_range :: "bool \<Rightarrow> int \<Rightarrow> int \<Rightarrow> nat \<Rightarrow> bool" where
  "in_range incl fromIdx toIdx i = (fromIdx \<le> int i \<and> (if incl then int i \<le> toIdx else int i < toIdx))"

definition store_rangeRead :: "string \<Rightarrow> int \<Rightarrow> int \<Rightarrow> (adapter, row list) exec" where
  "store_rangeRead t fromIdx toIdx =
     bnd (logged (OpRangeRead t fromIdx toIdx))
       (\<lambda>u a. (Inr (map (\<lambda>i. snd (rowsOf a t ! i))
                       (filter (in_range (toInclusive a) fromIdx toIdx) [0 ..< length (rowsOf a t)])), a))"

text \<open>Modelled from the spec: the secondary index of a column maps a value to the keys
  of the live rows whose column equals it (invariant 1), so the read of an index entry
  delivers those rows.\<close>

definition x_secondaryIndexRead :: "string \<Rightarrow> string \<Rightarrow> val \<Rightarrow> (adapter, row list) exec" where
  "x_secondaryIndexRead t c v =
     bnd (logged (OpIndexRead t c v))
       (\<lambda>u a. (Inr (filter (\<lambda>r. strict_eq (getf r c) v) (map snd (rowsOf a t))), a))"

text \<open>
  Modelled from the spec: \<open>write(table, pk | null, row)\<close> stores the row under the key
  and gives the row stored; without a key (a value that is not a number or a string) the
  adapter assigns one. The row takes the key's place in the table, here: in place when
  the key exists, at the end otherwise. \<open>pkcol\<close> is the primary key column of the table.
\<close>

fun put_row :: "(val \<times> row) list \<Rightarrow> val \<Rightarrow> row \<Rightarrow> (val \<times> row) list" where
  "put_row [] k r = [(k, r)]"
| "put_row ((k', r') # rs) k r = (if k' = k then (k, r) # rs else (k', r') # put_row rs k r)"

definition key_for :: "adapter \<Rightarrow> string \<Rightarrow> val \<Rightarrow> val" where
  "key_for a t pk = (case pk of (Num n) \<Rightarrow> Num n | (Str s) \<Rightarrow> Str s | _ \<Rightarrow> newKey a (rowsOf a t))"

definition adapterWrite :: "string \<Rightarrow> string \<Rightarrow> val \<Rightarrow> row \<Rightarrow> (adapter, row) exec" where
  "adapterWrite t pkcol pk r =
     bnd (logged (OpWrite t pk))
       (\<lambda>u a. let k = key_for a t pk; r' = setf r pkcol k
               in (Inr r', a\<lparr>rowsOf := (rowsOf a)(t := put_row (rowsOf a t) k r')\<rparr>))"

text \<open>Modelled from the spec: \<open>_write(table, pk, oldRow, newColumns)\<close> of the storage class
  writes the old row with the new columns over it.\<close>

definition x_write :: "schema \<Rightarrow> string \<Rightarrow> val \<Rightarrow> row option \<Rightarrow> row \<Rightarrow> (adapter, row) exec" where
  "x_write s t pk oldRow newRow =
     bnd (info s t) (\<lambda>ti.
       adapterWrite t (x_pk ti) pk (spread (case oldRow of None \<Rightarrow> [] | Some r \<Rightarrow> r) newRow))"

text \<open>Modelled from the spec: \<open>delete(table, pk)\<close> and \<open>drop(table)\<close>.\<close>

definition x_delete_row :: "string \<Rightarrow> val \<Rightarrow> (adapter, unit) exec" where
  "x_delete_row t pk =
     bnd (logged (OpDelete t pk))
       (\<lambda>u a. (Inr (), a\<lparr>rowsOf := (rowsOf a)(t := filter (\<lambda>kr. fst kr \<noteq> pk) (rowsOf a t))\<rparr>))"

definition x_drop_table :: "string \<Rightarrow> (adapter, unit) exec" where
  "x_drop_table t = bnd (logged (OpDrop t)) (\<lambda>u a. (Inr (), a\<lparr>rowsOf := (rowsOf a)(t := [])\<rparr>))"

subsection \<open>The local view projection: \<open>_updateRowViews\<close>\<close>

text \<open>\<open>columns.forEach(col => newRowData[col.thisColumn] = null)\<close> and the copy from the
  row referred to.\<close>

definition null_columns :: "(string \<times> string) list \<Rightarrow> row \<Rightarrow> row" where
  "null_columns cols r = foldl (\<lambda>acc (thisColumn, otherColumn). setf acc thisColumn (Null)) r cols"

definition copy_columns :: "(string \<times> string) list \<Rightarrow> row \<Rightarrow> row \<Rightarrow> row" where
  "copy_columns cols ref r =
     foldl (\<lambda>acc (thisColumn, otherColumn). setf acc thisColumn (getf ref otherColumn)) r cols"

text \<open>
  The body of the iteration over the views of the table, for one view. \<open>existingRow\<close> is
  \<open>None\<close> for \<open>null\<close>; the comparison \<open>newRowData[pk] === existingRow[pk]\<close> reads a
  property of it and raises when it is \<open>null\<close>. When the row referred to is missing and
  the mode is not LIVE, \<open>refRows[0][col.otherColumn]\<close> raises for the first column.
\<close>

definition updateRowView :: "string \<times> view_def \<Rightarrow> row option \<Rightarrow> row \<Rightarrow> (adapter, row) exec" where
  "updateRowView tv existingRow newRowData =
     (let pk = pkColumn (snd tv) in
      if getf newRowData pk = Undefined then ret newRowData
      else
        (case existingRow of
           None \<Rightarrow> raise TypeError
         | Some ex \<Rightarrow>
             if strict_eq (getf newRowData pk) (getf ex pk) then ret newRowData
             else if getf newRowData pk = Null then
               ret (null_columns (viewColumns (snd tv)) newRowData)
             else
               bnd (store_read (fst tv) [getf newRowData pk]) (\<lambda>refRows.
                 if refRows = [] \<and> viewMode (snd tv) = LIVE then
                   ret (null_columns (viewColumns (snd tv)) newRowData)
                 else if refRows = [] \<and> viewColumns (snd tv) \<noteq> [] then raise TypeError
                 else ret (copy_columns (viewColumns (snd tv)) (hd refRows) newRowData))))"

fun updateRowViews_all :: "(string \<times> view_def) list \<Rightarrow> row option \<Rightarrow> row \<Rightarrow> (adapter, row) exec" where
  "updateRowViews_all [] existingRow newRowData = ret newRowData"
| "updateRowViews_all (tv # tvs) existingRow newRowData =
     bnd (updateRowView tv existingRow newRowData) (updateRowViews_all tvs existingRow)"

text \<open>
  \<open>_updateRowViews(newRowData, existingRow, complete)\<close>. Both callers pass
  \<open>actionArgs || {}\<close> for \<open>newRowData\<close>, so it is a row and the test for \<open>null\<close> at the
  head of the source function never fires.
\<close>

definition x_updateRowViews :: "schema \<Rightarrow> string \<Rightarrow> row \<Rightarrow> row option \<Rightarrow> (adapter, row) exec" where
  "x_updateRowViews s t newRowData existingRow =
     (if \<not> x_hasViews s then ret newRowData
      else bnd (info s t) (\<lambda>ti. updateRowViews_all (x_views ti) existingRow newRowData))"

subsection \<open>The remote view projection: \<open>_updateRemoteViews\<close> and \<open>_doAfterQuery\<close>\<close>

text \<open>
  The update of one related row \<open>rRow\<close>, an object read through the secondary index,
  from the updated row \<open>row\<close>. The source assigns to the fields of \<open>rRow\<close> itself; it
  goes through the columns from the last to the first. The result is \<open>doUpdate\<close> and the
  object after the assignments.
\<close>

fun null_related :: "(string \<times> string) list \<Rightarrow> obj \<Rightarrow> obj" where
  "null_related [] ob = ob"
| "null_related ((thisColumn, otherColumn) # cols) ob =
     null_related cols (assign_field ob otherColumn Null)"

fun copy_changed :: "(string \<times> string) list \<Rightarrow> row \<Rightarrow> bool \<times> obj \<Rightarrow> bool \<times> obj" where
  "copy_changed [] row st = st"
| "copy_changed ((thisColumn, otherColumn) # cols) row (doUpdate, ob) =
     (if \<not> strict_eq (getf (fieldsOf ob) otherColumn) (getf row thisColumn) then
        copy_changed cols row (True, assign_field ob otherColumn (getf row thisColumn))
      else copy_changed cols row (doUpdate, ob))"

definition remote_row_update :: "view_def \<Rightarrow> bool \<Rightarrow> row \<Rightarrow> obj \<Rightarrow> bool \<times> obj" where
  "remote_row_update vd doDel row rRow =
     (if doDel then
        (if viewMode vd = LIVE then
           (True, null_related (rev (viewColumns vd)) (assign_field rRow (pkColumn vd) Null))
         else (False, rRow))
      else copy_changed (rev (viewColumns vd)) row (False, rRow))"

text \<open>\<open>tableInfo[V]._views[T]\<close>, which raises when \<open>V\<close> is no table and gives \<open>undefined\<close>,
  whose properties cannot be read, when \<open>V\<close> has no view onto \<open>T\<close>.\<close>

definition view_onto :: "schema \<Rightarrow> string \<Rightarrow> string \<Rightarrow> ('s, view_def) exec" where
  "view_onto s v t =
     bnd (info s v) (\<lambda>vi. case map_of (x_views vi) t of None \<Rightarrow> raise TypeError | Some vd \<Rightarrow> ret vd)"

text \<open>The body of the iteration over \<open>_viewTables\<close>, for the updated row \<open>row\<close> of table
  \<open>t\<close> and the view \<open>(vt, vc)\<close>: table \<open>vt\<close> refers to \<open>t\<close> through its column \<open>vc\<close>.\<close>

definition remote_view :: "schema \<Rightarrow> string \<Rightarrow> string \<Rightarrow> bool \<Rightarrow> row \<Rightarrow> string \<times> string \<Rightarrow> (adapter, unit) exec" where
  "remote_view s t pk doDel row view =
     bnd (if doDel then bnd (view_onto s (fst view) t) (\<lambda>vd. ret (viewMode vd = GHOST)) else ret False)
       (\<lambda>skip.
          if skip then ret ()
          else
            bnd (x_secondaryIndexRead (fst view) (snd view) (getf row pk)) (\<lambda>relatedRows.
              if relatedRows = [] then ret ()
              else
                bnd (view_onto s (fst view) t) (\<lambda>vd.
                  bnd (each (\<lambda>rr a.
                         (case remote_row_update vd doDel row \<lparr> isFrozen = freezes a, fieldsOf = rr \<rparr> of
                            (doUpdate, ob) \<Rightarrow>
                              if \<not> doUpdate then ret () a
                              else
                                bnd (info s (fst view)) (\<lambda>vi.
                                  bnd (adapterWrite (fst view) (x_pk vi) (getf (fieldsOf ob) (x_pk vi)) (fieldsOf ob))
                                    (\<lambda>w. ret ())) a))
                       relatedRows)
                    (\<lambda>us. ret ()))))"

definition x_updateRemoteViews :: "schema \<Rightarrow> string \<Rightarrow> row list \<Rightarrow> bool \<Rightarrow> (adapter, unit) exec" where
  "x_updateRemoteViews s t updatedRows doDel =
     bnd (info s t) (\<lambda>ti.
       bnd (each (\<lambda>row. bnd (each (remote_view s t (x_pk ti) doDel row) (x_viewTables ti)) (\<lambda>us. ret ()))
              updatedRows)
         (\<lambda>us. ret ()))"

definition x_doAfterQuery :: "schema \<Rightarrow> string \<Rightarrow> row list \<Rightarrow> bool \<Rightarrow> (adapter, unit) exec" where
  "x_doAfterQuery s t newRows doDel =
     (if \<not> x_hasViews s then ret ()
      else
        bnd (info s t) (\<lambda>ti.
          if x_viewTables ti = [] then ret () else x_updateRemoteViews s t newRows doDel))"

subsection \<open>The query descriptor\<close>

text \<open>
  The table of a query is a name or an instance table, a literal array of row objects.
  The rows selected from an instance table are looked up again in the array by object
  identity (\<open>indexOf\<close>), so a row object of an instance table carries its reference.
\<close>

datatype table_ref = TName string | TInstance "(nat \<times> row) list"

datatype where_arg = WArr wclause | WFn "row \<Rightarrow> nat \<Rightarrow> bool"

datatype action_args = ArgRow row | ArgCols "string list"

text \<open>
  A field that is absent (\<open>undefined\<close>) is \<open>None\<close>. \<open>rangeQ\<close> is the pair \<open>[limit, offset]\<close>,
  \<open>trie\<close> the pair of \<open>column\<close> and \<open>search\<close>. The contents of \<open>join\<close>, \<open>orm\<close>, \<open>groupBy\<close>
  and \<open>orderBy\<close> are read by collaborators only and are kept as the lists of their strings.
\<close>

record query =
  action :: string
  table :: table_ref
  actionArgs :: "action_args option"
  whereQ :: "where_arg option"
  rangeQ :: "(int \<times> int) option"
  trie :: "(string \<times> string) option"
  joinQ :: "string list option"
  groupBy :: "(string \<times> string) list option"
  orderBy :: "(string \<times> string) list option"
  having :: "where_arg option"
  offset :: "int option"
  limit :: "int option"
  orm :: "string list option"
  comments :: "string list"
  queryID :: "string option"

text \<open>The result a query delivers: rows, the envelope of a write, or table names.\<close>

datatype qresult =
    Rows "row list"
  | Affected string "val list" "row list"
  | Names "string list"
  | Described string
  | NoResult

text \<open>
  The parts of the engine that no property below looks into are parameters:
  \<^item> \<open>fingerprint\<close>: \<open>hash(JSON.stringify(...))\<close> of the utilities module;
  \<^item> \<open>x_updateSearchIndex\<close> and \<open>x_clearFromSearchIndex\<close>: the maintenance of the
    full-text index tables on a write and a delete, steps on the adapter;
  \<^item> \<open>x_trieRead\<close>: the prefix lookup of the storage class; \<open>x_selectByKeysOrSeach\<close>:
    the selection through the primary key, a secondary index or the full-text index;
    \<open>x_join\<close>: the nested-loop join. The three only read the adapter: they are functions
    of its state;
  \<^item> \<open>x_orm\<close>: the expansion of relationships through nested queries, a step on the
    whole store;
  \<^item> \<open>functionsOf\<close>: whether a name is registered in \<open>NanoSQLInstance.functions\<close>, and
    \<open>applyFunctions\<close>: the calls of the functions and the projection of the rows;
  \<^item> \<open>sortRows\<close>: \<open>Array.prototype.sort\<close> with the comparison \<open>_sortObj\<close> of the columns.
\<close>

record parts =
  fingerprint :: "query \<Rightarrow> string"
  x_updateSearchIndex :: "string \<Rightarrow> val \<Rightarrow> row \<Rightarrow> (adapter, unit) exec"
  x_clearFromSearchIndex :: "string \<Rightarrow> val \<Rightarrow> row \<Rightarrow> (adapter, unit) exec"
  x_trieRead :: "string \<Rightarrow> string \<Rightarrow> string \<Rightarrow> adapter \<Rightarrow> error + row list"
  x_selectByKeysOrSeach :: "string \<Rightarrow> wclause \<Rightarrow> adapter \<Rightarrow> error + row list"
  x_join :: "query \<Rightarrow> row list \<Rightarrow> adapter \<Rightarrow> error + row list"
  x_orm :: "query \<Rightarrow> row list \<Rightarrow> (db, row list) exec"
  functionsOf :: "string \<Rightarrow> bool"
  applyFunctions :: "query \<Rightarrow> row list \<Rightarrow> row list"
  sortRows :: "(string \<times> string) list \<Rightarrow> bool \<Rightarrow> row list \<Rightarrow> row list"

subsection \<open>The direct upsert\<close>

text \<open>\<open>this._store._cache[T] = {}\<close>.\<close>

definition clear_cache :: "string \<Rightarrow> (db, unit) exec" where
  "clear_cache t d = (Inr (), d\<lparr>x_cache := (x_cache d)(t := Some [])\<rparr>)"

text \<open>
  The branch of \<open>_upsert\<close> for a query without a WHERE clause, on the table \<open>t\<close> with
  primary key column \<open>pk\<close>. \<open>row\<close> is \<open>actionArgs || {}\<close>. The synchronisation of the
  relationships is the argument \<open>sync\<close>, so that the upsert which the synchronisation
  itself issues can be defined first.
\<close>

definition upsert_direct ::
  "parts \<Rightarrow> schema \<Rightarrow> (row list \<Rightarrow> row list \<Rightarrow> (db, unit) exec) \<Rightarrow> string \<Rightarrow> string \<Rightarrow> row
     \<Rightarrow> string list \<Rightarrow> (db, qresult) exec" where
  "upsert_direct P s sync t pk row cmts =
     bnd (clear_cache t) (\<lambda>u.
     bnd (if getf row pk \<noteq> Undefined \<and> ''_rebuild_search_index'' \<notin> set cmts
          then bnd (on_adapter (store_read t [getf row pk]))
                 (\<lambda>rows. ret (case rows of [] \<Rightarrow> None | r # rs \<Rightarrow> Some r))
          else ret None) (\<lambda>oldRow.
     bnd (on_adapter (x_updateRowViews s t row oldRow)) (\<lambda>updatedColumns.
     bnd (on_adapter (x_write s t (getf row pk) oldRow updatedColumns)) (\<lambda>result.
     bnd (on_adapter (x_updateSearchIndex P t (getf result pk) result)) (\<lambda>u.
     bnd (if x_hasORM s then sync (case oldRow of None \<Rightarrow> [] | Some r \<Rightarrow> [r]) [result] else ret ()) (\<lambda>u.
     bnd (on_adapter (x_doAfterQuery s t [result] False)) (\<lambda>u.
     ret (Affected ''1 row inserted.'' [getf result pk] [result]))))))))"

text \<open>
  The upsert issued by the synchronisation of the relationships,
  \<open>query("upsert", newRow).comment("_orm_skip").manualExec({table})\<close>. It passes through
  the query builder, which is outside the source file, and arrives at \<open>_upsert\<close> as a
  query on a named table without a WHERE clause; its own \<open>_syncORM\<close> returns at once
  because of the comment \<open>_orm_skip\<close>.
\<close>

definition upsert_orm_skip :: "parts \<Rightarrow> schema \<Rightarrow> string \<Rightarrow> row \<Rightarrow> (db, unit) exec" where
  "upsert_orm_skip P s t row =
     bnd (info s t) (\<lambda>ti.
       bnd (upsert_direct P s (\<lambda>old new. ret ()) t (x_pk ti) row [''_orm_skip'']) (\<lambda>r. ret ()))"

subsection \<open>The synchronisation of relationships: \<open>_updateORMRows\<close> and \<open>_syncORM\<close>\<close>

text \<open>
  \<open>Array.prototype.sort()\<close> without a comparison: the elements are ordered by their
  strings, compared by character codes; \<open>undefined\<close> elements come last. The sort is
  stable.
\<close>

fun str_less :: "string \<Rightarrow> string \<Rightarrow> bool" where
  "str_less [] [] = False"
| "str_less [] (y # ys) = True"
| "str_less (x # xs) [] = False"
| "str_less (x # xs) (y # ys) = ((of_char x :: nat) < of_char y \<or> (x = y \<and> str_less xs ys))"

fun js_insert :: "val \<Rightarrow> val list \<Rightarrow> val list" where
  "js_insert x [] = [x]"
| "js_insert x (y # ys) =
     (if str_less (js_String x) (js_String y) then x # y # ys else y # js_insert x ys)"

definition js_sort :: "val list \<Rightarrow> val list" where
  "js_sort xs =
     foldl (\<lambda>acc x. js_insert x acc) [] (filter (\<lambda>x. x \<noteq> Undefined) xs) @ filter (\<lambda>x. x = Undefined) xs"

text \<open>\<open>xs.splice(xs.indexOf(k), 1)\<close> when \<open>k\<close> is found: the first element strictly equal
  to \<open>k\<close> is removed.\<close>

fun splice_first :: "val \<Rightarrow> val list \<Rightarrow> val list" where
  "splice_first k [] = []"
| "splice_first k (x # xs) = (if strict_eq x k then xs else x # splice_first k xs)"

text \<open>
  The change of one related row. \<open>newRow\<close> is the row itself, or a copy when the row is
  frozen. For a column of array arity the key is added when missing, or removed when
  present, and the array is sorted; a column that holds a non-empty string or another
  true value that is no array has no method \<open>push\<close>, \<open>splice\<close> or \<open>sort\<close>, and the
  model raises. The upsert of \<open>newRow\<close> is issued in every case, also when the source
  has called \<open>rowDone\<close> before.
\<close>

definition orm_row_update :: "relation \<Rightarrow> bool \<Rightarrow> val \<Rightarrow> obj \<Rightarrow> error + obj" where
  "orm_row_update rel add primaryKey row =
     (let newRow = (if isFrozen row then x_assign row else row) in
      if x_fromType rel = ArrayT then
        (let cur = getf (fieldsOf newRow) (x_fromColumn rel) in
         case (if truthy cur then cur else Arr []) of
           Arr xs \<Rightarrow>
             (let found = (\<exists>x \<in> set xs. strict_eq x primaryKey);
                  ys = (if add then (if \<not> found then xs @ [primaryKey] else xs)
                        else (if found then splice_first primaryKey xs else xs))
              in Inr (assign_field newRow (x_fromColumn rel) (Arr (js_sort ys))))
         | _ \<Rightarrow> Inl TypeError)
      else Inr (assign_field newRow (x_fromColumn rel) (if add then primaryKey else Null)))"

text \<open>
  \<open>_updateORMRows(relation, fromPKs, add, primaryKey, complete)\<close>; \<open>upsert\<close> is the upsert
  it issues. \<open>fromPKs\<close> is a value: the source passes what the column holds. Modelled
  from the spec: the read of the storage class takes a list of keys; on a value that is
  no array the model raises.
\<close>

definition x_updateORMRows ::
  "schema \<Rightarrow> (string \<Rightarrow> row \<Rightarrow> (db, unit) exec) \<Rightarrow> relation \<Rightarrow> val \<Rightarrow> bool \<Rightarrow> val \<Rightarrow> (db, unit) exec" where
  "x_updateORMRows s upsert rel fromPKs add primaryKey =
     bnd (info s (x_fromTable rel)) (\<lambda>fi.
     bnd (case fromPKs of
            Arr pks \<Rightarrow> on_adapter (store_read (x_fromTable rel) pks)
          | _ \<Rightarrow> raise TypeError) (\<lambda>rows.
     bnd (each (\<lambda>row d.
            (case orm_row_update rel add primaryKey \<lparr> isFrozen = freezes (adapterOf d), fieldsOf = row \<rparr> of
               Inl err \<Rightarrow> raise err d
             | Inr newRow \<Rightarrow> upsert (x_fromTable rel) (fieldsOf newRow) d))
          rows) (\<lambda>us. ret ())))"

text \<open>The helper \<open>equals\<close> local to \<open>_syncORM\<close>: for two arrays of the same length it
  answers whether some element differs from the element at its position.\<close>

definition equals :: "val \<Rightarrow> val \<Rightarrow> bool" where
  "equals val1 val2 =
     (case (val1, val2) of
        (Arr xs, Arr ys) \<Rightarrow>
          if length xs \<noteq> length ys then False
          else filter (\<lambda>(v, w). \<not> strict_eq v w) (zip xs ys) \<noteq> []
      | _ \<Rightarrow> strict_eq val1 val2)"

text \<open>\<open>(a || []).filter(v => (b || []).indexOf(v) === -1)\<close>.\<close>

fun keep_missing :: "val \<Rightarrow> val list \<Rightarrow> error + val list" where
  "keep_missing b [] = Inr []"
| "keep_missing b (v # vs) =
     (case found_in b v of
        Inl err \<Rightarrow> Inl err
      | Inr f \<Rightarrow> (case keep_missing b vs of Inl err \<Rightarrow> Inl err | Inr r \<Rightarrow> Inr (if f then r else v # r)))"

definition missing_from :: "val \<Rightarrow> val \<Rightarrow> error + val" where
  "missing_from a b =
     (case (if truthy a then a else Arr []) of
        Arr xs \<Rightarrow> (case keep_missing b xs of Inl err \<Rightarrow> Inl err | Inr r \<Rightarrow> Inr (Arr r))
      | _ \<Rightarrow> Inl TypeError)"

text \<open>\<open>thisType === "array" ? (v || []) : [v].filter(v => v)\<close>.\<close>

definition ids_of :: "arity \<Rightarrow> val \<Rightarrow> val" where
  "ids_of ty v = (if ty = ArrayT then (if truthy v then v else Arr []) else (if truthy v then Arr [v] else Arr []))"

text \<open>\<open>valuesToAdd && valuesToAdd.length\<close>.\<close>

fun has_length :: "val \<Rightarrow> bool" where
  "has_length (Arr xs) = (xs \<noteq> [])"
| "has_length (Str s) = (s \<noteq> [])"
| "has_length v = False"

text \<open>
  The body of \<open>_syncORM\<close> for one position \<open>idx\<close> and one relation, case \<open>"add"\<close>:
  \<open>old\<close> is \<open>oldRows[idx]\<close>, \<open>None\<close> when there is no previous row record, \<open>new\<close> is
  \<open>newRows[idx]\<close>, and \<open>pk\<close> the primary key column of the table of the query.
\<close>

definition syncORM_add ::
  "schema \<Rightarrow> (string \<Rightarrow> row \<Rightarrow> (db, unit) exec) \<Rightarrow> string \<Rightarrow> relation \<Rightarrow> row option \<Rightarrow> row \<Rightarrow> (db, unit) exec" where
  "syncORM_add s upsert pk rel old new =
     (let primaryKey = getf new pk; col = x_thisColumn rel in
      case old of
        Some ol \<Rightarrow>
          if equals (getf ol col) (getf new col) then ret ()
          else if x_thisType rel = ArrayT then
            bnd (lift (missing_from (getf new col) (getf ol col))) (\<lambda>addIds.
            bnd (lift (missing_from (getf ol col) (getf new col))) (\<lambda>removeIds.
            bnd (x_updateORMRows s upsert rel addIds True primaryKey) (\<lambda>u.
                 x_updateORMRows s upsert rel removeIds False primaryKey)))
          else
            bnd (if getf ol col \<noteq> Null \<and> getf ol col \<noteq> Undefined
                 then x_updateORMRows s upsert rel (Arr [getf ol col]) False primaryKey
                 else ret ()) (\<lambda>u.
              if getf new col \<noteq> Null \<and> getf new col \<noteq> Undefined
              then x_updateORMRows s upsert rel (Arr [getf new col]) True primaryKey
              else ret ())
      | None \<Rightarrow>
          (let valuesToAdd = ids_of (x_thisType rel) (getf new col) in
           if has_length valuesToAdd then x_updateORMRows s upsert rel valuesToAdd True primaryKey
           else ret ()))"

text \<open>Case \<open>"del"\<close>, for the deleted row \<open>old\<close>.\<close>

definition syncORM_del ::
  "schema \<Rightarrow> (string \<Rightarrow> row \<Rightarrow> (db, unit) exec) \<Rightarrow> string \<Rightarrow> relation \<Rightarrow> row \<Rightarrow> (db, unit) exec" where
  "syncORM_del s upsert pk rel old =
     x_updateORMRows s upsert rel (ids_of (x_thisType rel) (getf old (x_thisColumn rel))) False (getf old pk)"

text \<open>\<open>oldRows[idx]\<close> and \<open>newRows[idx]\<close> for the positions below the longer length.\<close>

fun pair_up :: "row list \<Rightarrow> row list \<Rightarrow> (row option \<times> row option) list" where
  "pair_up [] [] = []"
| "pair_up (x # xs) [] = (Some x, None) # pair_up xs []"
| "pair_up [] (y # ys) = (None, Some y) # pair_up [] ys"
| "pair_up (x # xs) (y # ys) = (Some x, Some y) # pair_up xs ys"

text \<open>
  \<open>_syncORM(type, oldRows, newRows, complete)\<close> for the query on table \<open>t\<close> with the
  comments \<open>cmts\<close>; \<open>is_add\<close> is \<open>type === "add"\<close>. A row that is missing at a position
  where the source reads a property of it raises.
\<close>

definition x_syncORM ::
  "parts \<Rightarrow> schema \<Rightarrow> string \<Rightarrow> string list \<Rightarrow> bool \<Rightarrow> row list \<Rightarrow> row list \<Rightarrow> (db, unit) exec" where
  "x_syncORM P s t cmts is_add oldRows newRows =
     (if \<not> x_hasORM s then ret ()
      else if ''_orm_skip'' \<in> set cmts then ret ()
      else
        (case map_of (x_relToTable s) t of
           None \<Rightarrow> ret ()
         | Some useRelations \<Rightarrow>
             if useRelations = [] then ret ()
             else
               bnd (each (\<lambda>(old, new).
                      bnd (each (\<lambda>rel.
                             bnd (info s t) (\<lambda>ti.
                               if is_add then
                                 (case new of
                                    None \<Rightarrow> raise TypeError
                                  | Some n \<Rightarrow> syncORM_add s (upsert_orm_skip P s) (x_pk ti) rel old n)
                               else
                                 (case old of
                                    None \<Rightarrow> raise TypeError
                                  | Some ol \<Rightarrow> syncORM_del s (upsert_orm_skip P s) (x_pk ti) rel ol)))
                           useRelations) (\<lambda>us. ret ()))
                    (pair_up oldRows newRows)) (\<lambda>us. ret ())))"

subsection \<open>Concrete instances\<close>

text \<open>The simplest collaborators: a path names a column, no relational comparison is
  defined and no pattern matches. The concrete rows and clauses below are evaluated under
  them.\<close>

definition flat_env :: env where
  "flat_env = \<lparr> objQuery = (\<lambda>p r i. getf r p), js_less = (\<lambda>a b. None), js_match = (\<lambda>s p. False) \<rparr>"

definition demo_row :: row where
  "demo_row = [(''a'', (Num 1)), (''b'', (Num 2))]"

subsection \<open>Row selection: \<open>InstanceSelection\<close> and \<open>_RowSelection\<close>\<close>

text \<open>\<open>while (counter--) { toIdx++; }\<close>: the loop ends when the counter has counted down
  to zero, which it never does from a negative start.\<close>

partial_function (option) count_up :: "int \<Rightarrow> int \<Rightarrow> int option" where
  "count_up toIdx counter = (if counter = 0 then Some toIdx else count_up (toIdx + 1) (counter - 1))"

declare count_up.simps [code]

text \<open>\<open>xs.filter((x, i) => keep(x, i))\<close> where the callback may raise.\<close>

fun filter_idx :: "('x \<Rightarrow> nat \<Rightarrow> error + bool) \<Rightarrow> nat \<Rightarrow> 'x list \<Rightarrow> error + 'x list" where
  "filter_idx keep i [] = Inr []"
| "filter_idx keep i (x # xs) =
     (case keep x i of
        Inl err \<Rightarrow> Inl err
      | Inr b \<Rightarrow>
          (case filter_idx keep (Suc i) xs of
             Inl err \<Rightarrow> Inl err
           | Inr r \<Rightarrow> Inr (if b then x # r else r)))"

text \<open>\<open>Array.isArray(where) ? _where(row, where, i, ...) : where(row, i)\<close>.\<close>

definition matches :: "env \<Rightarrow> where_arg \<Rightarrow> bool \<Rightarrow> search_cache option \<Rightarrow> string \<Rightarrow> row \<Rightarrow> nat \<Rightarrow> error + bool" where
  "matches e w ignoreFirstPath searchCache pk row i =
     (case w of
        WArr wh \<Rightarrow> x_where e row wh i ignoreFirstPath searchCache pk
      | WFn f \<Rightarrow> Inr (f row i))"

text \<open>
  \<open>InstanceSelection.getRows\<close> on the instance table \<open>tb\<close>. The rows delivered are the
  objects of the table themselves, with their references.
\<close>

definition getRows :: "env \<Rightarrow> query \<Rightarrow> (nat \<times> row) list \<Rightarrow> error + (nat \<times> row) list" where
  "getRows e q tb =
     (if joinQ q \<noteq> None \<or> orm q \<noteq> None \<or> trie q \<noteq> None then
        Inl (QueryError ''Cannot do a JOIN, ORM or TRIE command with instance table!'')
      else
        (case rangeQ q of
           Some (lim, off) \<Rightarrow>
             (let fromIdx = (if lim < 0 then int (length tb) + lim - off else off) in
              case count_up fromIdx (\<bar>lim\<bar> - 1) of
                None \<Rightarrow> Inl NoReturn
              | Some toIdx \<Rightarrow> filter_idx (\<lambda>x idx. Inr (fromIdx \<le> int idx \<and> int idx \<le> toIdx)) 0 tb)
         | None \<Rightarrow>
             (case whereQ q of
                Some w \<Rightarrow> filter_idx (\<lambda>x i. matches e w False None [] (snd x) i) 0 tb
              | None \<Rightarrow> Inr tb)))"

text \<open>\<open>_selectByRange\<close> on the stored table \<open>t\<close>, for \<open>range = [lim, off]\<close>.\<close>

definition x_selectByRange :: "string \<Rightarrow> int \<times> int \<Rightarrow> (adapter, row list) exec" where
  "x_selectByRange t r =
     (if fst r > 0 then store_rangeRead t (snd r) (snd r + fst r)
      else
        bnd (getIndex_count t) (\<lambda>count.
          let fromIdx = count + fst r - snd r in
          case count_up fromIdx (\<bar>fst r\<bar> - 1) of
            None \<Rightarrow> raise NoReturn
          | Some toIdx \<Rightarrow> store_rangeRead t fromIdx toIdx))"

text \<open>
  \<open>_isOptimizedWhere(wArgs) === 0\<close>. \<open>wArgs\<close> is read as \<open>wArgs[0]\<close> and \<open>wArgs[1]\<close>; on a
  string these are its first two characters.
\<close>

definition path_and_op :: "warg \<Rightarrow> string \<times> string" where
  "path_and_op w =
     (case w of
        WLeaf p c v \<Rightarrow> (p, c)
      | WConn s \<Rightarrow> (take 1 s, take 1 (drop 1 s)))"

definition x_isOptimizedWhere :: "table_info \<Rightarrow> warg \<Rightarrow> bool" where
  "x_isOptimizedWhere tableData wArgs =
     (let wQuery = fst (path_and_op wArgs); wCondition = snd (path_and_op wArgs) in
      (wCondition = ''='' \<or> wCondition = ''IN'' \<or> wCondition = ''BETWEEN'' \<or>
       (str_includes wQuery ''search('' \<and>
        (wCondition = ''='' \<or> str_includes wCondition ''>'' \<or> str_includes wCondition ''<'')))
      \<and> (wQuery = x_pk tableData \<or> wQuery \<in> set (x_secondaryIndexes tableData) \<or>
         str_includes wQuery ''search(''))"

text \<open>The elements at the even positions of a compound clause, with their positions.\<close>

definition even_positions :: "warg list \<Rightarrow> (nat \<times> warg) list" where
  "even_positions ws = filter (\<lambda>iw. fst iw mod 2 = 0) (zip [0 ..< length ws] ws)"

text \<open>\<open>_isSubOptimizedWhere(wArgs)\<close> of a compound clause: the position after the last
  optimised condition that has a successor, when the first condition is optimised and
  an \<open>AND\<close> stands there; zero otherwise.\<close>

definition x_isSubOptimizedWhere :: "table_info \<Rightarrow> warg list \<Rightarrow> nat" where
  "x_isSubOptimizedWhere tableData wArgs =
     (case wArgs of
        [] \<Rightarrow> 0
      | w0 # ws \<Rightarrow>
          if x_isOptimizedWhere tableData w0 then
            (let lastCheck =
               foldl (\<lambda>lc iw.
                        if x_isOptimizedWhere tableData (snd iw) \<and> Suc (fst iw) < length wArgs \<and>
                           wArgs ! Suc (fst iw) \<noteq> WConn []
                        then Suc (fst iw) else lc)
                     0 (even_positions wArgs)
             in if wArgs ! lastCheck \<noteq> WConn ''AND'' then 0 else lastCheck)
          else 0)"

text \<open>
  \<open>_fullTableScan\<close>. For a compound clause the conditions on a \<open>search(...)\<close> path are
  selected first, each through a nested query
  \<open>query("select").where(wAr).manualExec({table})\<close>; their rows go into the search cache
  by the position of the condition, and into \<open>rowCache\<close> by their primary key, which
  replaces the scanned rows in the result. The nested query arrives at \<open>_select\<close>
  again; it is the argument \<open>sel\<close> here, so that the select can be defined after the
  selection. An element of the clause that is a connective is a string, whose first
  character does not contain \<open>search(\<close>; the empty string has no first character.
\<close>

definition search_part :: "(wclause \<Rightarrow> (db, row list) exec) \<Rightarrow> nat \<times> warg \<Rightarrow> (db, (nat \<times> row list) list) exec" where
  "search_part sel iw =
     (case snd iw of
        WConn [] \<Rightarrow> raise TypeError
      | WConn (c # cs) \<Rightarrow> ret []
      | WLeaf p c v \<Rightarrow>
          if \<not> str_includes p ''search('' then ret []
          else bnd (sel (WSingle p c v)) (\<lambda>rows. ret [(fst iw, rows)]))"

definition x_fullTableScan ::
  "env \<Rightarrow> (wclause \<Rightarrow> (db, row list) exec) \<Rightarrow> string \<Rightarrow> string \<Rightarrow> where_arg option \<Rightarrow> (db, row list) exec" where
  "x_fullTableScan e sel t PK w =
     bnd (case w of
            Some (WArr (WCompound ws)) \<Rightarrow>
              bnd (each (search_part sel) (zip [0 ..< length ws] ws)) (\<lambda>parts. ret (concat parts))
          | _ \<Rightarrow> ret []) (\<lambda>arraySearchCache.
     bnd (on_adapter (store_scan t)) (\<lambda>all.
     bnd (case w of
            None \<Rightarrow> ret all
          | Some wa \<Rightarrow> lift (filter_idx (matches e wa False (Some arraySearchCache) PK) 0 all)) (\<lambda>rows.
     if arraySearchCache = [] then ret rows
     else
       (let rowCache = concat (map snd arraySearchCache) in
        ret (map (\<lambda>r. case find (\<lambda>c. js_String (getf c PK) = js_String (getf r PK)) (rev rowCache) of
                         Some c \<Rightarrow> c
                       | None \<Rightarrow> r) rows)))))"

text \<open>
  The constructor of \<open>_RowSelection\<close> for the query \<open>q\<close> on the stored table \<open>t\<close>: the
  two checks, then the selection strategy. The callback of \<open>_getRows\<close> drops rows that
  are \<open>null\<close>; a row of the model is always a row. \<open>sel\<close> is the nested select of the
  full table scan.
\<close>

definition x_RowSelection ::
  "parts \<Rightarrow> env \<Rightarrow> schema \<Rightarrow> (wclause \<Rightarrow> (db, row list) exec) \<Rightarrow> query \<Rightarrow> string \<Rightarrow> (db, row list) exec" where
  "x_RowSelection P e s sel q t =
     (if joinQ q \<noteq> None \<and> orm q \<noteq> None then
        raise (QueryError ''Cannot do a JOIN and ORM command at the same time!'')
      else if 1 < length (filter (\<lambda>b. b) [whereQ q \<noteq> None, rangeQ q \<noteq> None, trie q \<noteq> None]) then
        raise (QueryError ''Can only have ONE of Trie, Range or Where!'')
      else if joinQ q \<noteq> None then ret []
      else if (case trie q of Some (c, p) \<Rightarrow> c \<noteq> [] \<and> p \<noteq> [] | None \<Rightarrow> False) then
        on_adapter (reading (OpTrieRead t (fst (the (trie q))) (snd (the (trie q))))
          (x_trieRead P t (fst (the (trie q))) (snd (the (trie q)))))
      else if rangeQ q \<noteq> None then on_adapter (x_selectByRange t (the (rangeQ q)))
      else
        bnd (info s t) (\<lambda>ti.
          case whereQ q of
            Some (WArr (WSingle p c v)) \<Rightarrow>
              if x_isOptimizedWhere ti (WLeaf p c v) then
                on_adapter (reading (OpSelect t) (x_selectByKeysOrSeach P t (WSingle p c v)))
              else x_fullTableScan e sel t (x_pk ti) (whereQ q)
          | Some (WArr (WCompound ws)) \<Rightarrow>
              if ws = [] then x_fullTableScan e sel t (x_pk ti) (whereQ q)
              else if list_all (\<lambda>iw. x_isOptimizedWhere ti (snd iw)) (even_positions ws) then
                on_adapter (reading (OpSelect t) (x_selectByKeysOrSeach P t (WCompound ws)))
              else
                (let whereSlice = x_isSubOptimizedWhere ti ws in
                 if 0 < whereSlice then
                   bnd (on_adapter (reading (OpSelect t)
                          (x_selectByKeysOrSeach P t (WCompound (take whereSlice ws))))) (\<lambda>rows.
                     lift (filter_idx (\<lambda>r i. x_where e r (WCompound (drop (Suc whereSlice) ws)) i False None [])
                             0 rows))
                 else x_fullTableScan e sel t (x_pk ti) (whereQ q))
          | _ \<Rightarrow> x_fullTableScan e sel t (x_pk ti) (whereQ q)))"

text \<open>\<open>_getRows\<close>: the selection on an instance table or on a stored one; \<open>sel t\<close> is the
  nested select on the table \<open>t\<close>.\<close>

definition x_getRows_with ::
  "parts \<Rightarrow> env \<Rightarrow> schema \<Rightarrow> (string \<Rightarrow> wclause \<Rightarrow> (db, row list) exec) \<Rightarrow> query \<Rightarrow> (db, row list) exec" where
  "x_getRows_with P e s sel q =
     (case table q of
        TInstance tb \<Rightarrow> bnd (lift (getRows e q tb)) (\<lambda>rows. ret (map snd rows))
      | TName t \<Rightarrow> x_RowSelection P e s (sel t) q t)"

subsection \<open>The mutation of the selected rows: \<open>_MutateSelection\<close>\<close>

text \<open>The name of the table as a key of \<open>tableInfo\<close> and \<open>_cache\<close>. A row array used as
  a property key is its string, the strings of its objects joined by commas.\<close>

definition table_key :: "table_ref \<Rightarrow> string" where
  "table_key tr =
     (case tr of
        TName t \<Rightarrow> t
      | TInstance tb \<Rightarrow> join_comma (map (\<lambda>r. ''[object Object]'') tb))"

definition upper_char :: "char \<Rightarrow> char" where
  "upper_char c = (let n = (of_char c :: nat) in if 97 \<le> n \<and> n \<le> 122 then char_of (n - 32) else c)"

text \<open>
  The name of the function of a selection expression,
  \<open>(column.match(/^.*\(/g) || [""])[0].replace(/\(|\)/g, "").toUpperCase()\<close>: the match is
  the first line up to its last opening parenthesis, or nothing.
\<close>

definition fnName :: "string \<Rightarrow> string" where
  "fnName column =
     (let line = takeWhile (\<lambda>c. c \<noteq> CHR 0x0A \<and> c \<noteq> CHR 0x0D) column;
          matched = rev (dropWhile (\<lambda>c. c \<noteq> CHR ''('') (rev line))
      in map upper_char (filter (\<lambda>c. c \<noteq> CHR ''('' \<and> c \<noteq> CHR '')'') matched))"

text \<open>The first loop of \<open>_mutateRows\<close>: every selection expression with a parenthesis
  names a registered function, or the query raises.\<close>

fun check_functions :: "parts \<Rightarrow> string list \<Rightarrow> error + unit" where
  "check_functions P [] = Inr ()"
| "check_functions P (column # cols) =
     (if CHR ''('' \<notin> set column then check_functions P cols
      else if \<not> functionsOf P (fnName column) then
        Inl (QueryError ([CHR 0x27] @ fnName column @ [CHR 0x27] @ '' is not a valid function!''))
      else check_functions P cols)"

text \<open>\<open>this._query[k]\<close> read as a condition: a number counts when it is not zero.\<close>

definition nonzero :: "int option \<Rightarrow> bool" where
  "nonzero n = (case n of None \<Rightarrow> False | Some k \<Rightarrow> k \<noteq> 0)"

definition selected_columns :: "query \<Rightarrow> string list" where
  "selected_columns q = (case actionArgs q of Some (ArgCols cols) \<Rightarrow> cols | _ \<Rightarrow> [])"

text \<open>
  \<open>_executeQueryArguments(inputRows, callback)\<close>. The stages run in the order join,
  groupBy, orm, selection expressions, having, orderBy, offset, limit. The two sorts work
  in place; every other stage makes a new array. Beside the rows it delivers, the model
  keeps the contents of the array it was called with (\<open>orig\<close>), which a sort changes as
  long as \<open>inputRows\<close> is still that array (\<open>same\<close>).
\<close>

record stage =
  cur :: "row list"
  orig :: "row list"
  same :: bool

definition new_array :: "row list \<Rightarrow> stage \<Rightarrow> stage" where
  "new_array rows st = st\<lparr>cur := rows, same := False\<rparr>"

definition sorted_in_place :: "row list \<Rightarrow> stage \<Rightarrow> stage" where
  "sorted_in_place rows st = st\<lparr>cur := rows, orig := (if same st then rows else orig st)\<rparr>"

definition x_executeQueryArguments :: "parts \<Rightarrow> env \<Rightarrow> query \<Rightarrow> row list \<Rightarrow> (db, row list \<times> row list) exec" where
  "x_executeQueryArguments P e q inputRows =
     bnd (ret \<lparr> cur = inputRows, orig = inputRows, same = True \<rparr>) (\<lambda>st.
     bnd (if joinQ q \<noteq> None
          then bnd (on_adapter (reading (OpSelect (table_key (table q))) (x_join P q (cur st))))
                 (\<lambda>rows. ret (new_array rows st))
          else ret st) (\<lambda>st.
     bnd (ret (case groupBy q of
                 Some cols \<Rightarrow> sorted_in_place (sortRows P cols True (cur st)) st
               | None \<Rightarrow> st)) (\<lambda>st.
     bnd (if orm q \<noteq> None
          then bnd (x_orm P q (cur st)) (\<lambda>rows. ret (new_array rows st))
          else ret st) (\<lambda>st.
     bnd (if selected_columns q \<noteq> []
          then bnd (lift (check_functions P (selected_columns q))) (\<lambda>u.
                 ret (new_array (applyFunctions P q (cur st)) st))
          else ret st) (\<lambda>st.
     bnd (case having q of
            Some h \<Rightarrow> bnd (lift (filter_idx (matches e h True None []) 0 (cur st))) (\<lambda>rows.
                        ret (new_array rows st))
          | None \<Rightarrow> ret st) (\<lambda>st.
     bnd (ret (case orderBy q of
                 Some cols \<Rightarrow> sorted_in_place (sortRows P cols False (cur st)) st
               | None \<Rightarrow> st)) (\<lambda>st.
     bnd (ret (if nonzero (offset q)
               then new_array (map snd (filter (\<lambda>ir. the (offset q) \<le> int (fst ir))
                                          (zip [0 ..< length (cur st)] (cur st)))) st
               else st)) (\<lambda>st.
     bnd (ret (if nonzero (limit q)
               then new_array (map snd (filter (\<lambda>ir. int (fst ir) < the (limit q))
                                          (zip [0 ..< length (cur st)] (cur st)))) st
               else st)) (\<lambda>st.
     ret (cur st, orig st))))))))))"

subsection \<open>The dispatcher and the cache: \<open>_select\<close>, \<open>_upsert\<close>, \<open>_delete\<close>, \<open>_drop\<close>, \<open>doQuery\<close>\<close>

text \<open>\<open>_cache[T][hash]\<close> read and written; both raise when \<open>_cache[T]\<close> is \<open>undefined\<close>.\<close>

definition cache_lookup :: "string \<Rightarrow> string \<Rightarrow> (db, row list option) exec" where
  "cache_lookup t h d = (case x_cache d t of None \<Rightarrow> (Inl TypeError, d) | Some m \<Rightarrow> (Inr (map_of m h), d))"

definition cache_store :: "string \<Rightarrow> string \<Rightarrow> row list \<Rightarrow> (db, unit) exec" where
  "cache_store t h rows d =
     (case x_cache d t of
        None \<Rightarrow> (Inl TypeError, d)
      | Some m \<Rightarrow> (Inr (), d\<lparr>x_cache := (x_cache d)(t := Some ((h, rows) # filter (\<lambda>kv. fst kv \<noteq> h) m))\<rparr>))"

definition has_arguments :: "query \<Rightarrow> bool" where
  "has_arguments q =
     (having q \<noteq> None \<or> orderBy q \<noteq> None \<or> nonzero (offset q) \<or> nonzero (limit q) \<or>
      actionArgs q \<noteq> None \<or> groupBy q \<noteq> None \<or> orm q \<noteq> None \<or> joinQ q \<noteq> None)"

definition canCache :: "schema \<Rightarrow> query \<Rightarrow> bool" where
  "canCache s q =
     (joinQ q = None \<and> orm q = None \<and> x_doCache s \<and> (case table q of TName t \<Rightarrow> True | TInstance tb \<Rightarrow> False))"

definition x_select_with ::
  "parts \<Rightarrow> env \<Rightarrow> schema \<Rightarrow> (string \<Rightarrow> wclause \<Rightarrow> (db, row list) exec) \<Rightarrow> query \<Rightarrow> (db, qresult) exec" where
  "x_select_with P e s sel q =
     (let h = fingerprint P (q\<lparr>queryID := None\<rparr>); t = table_key (table q) in
      bnd (if canCache s q then cache_lookup t h else ret None) (\<lambda>hit.
        case hit of
          Some cached \<Rightarrow> ret (Rows cached)
        | None \<Rightarrow>
            bnd (x_getRows_with P e s sel q) (\<lambda>rows.
              if \<not> has_arguments q then
                bnd (if canCache s q then cache_store t h rows else ret ()) (\<lambda>u. ret (Rows rows))
              else
                bnd (x_executeQueryArguments P e q rows) (\<lambda>res.
                bnd (if canCache s q then cache_store t h (snd res) else ret ()) (\<lambda>u.
                  ret (Rows (fst res)))))))"

text \<open>
  Modelled from the spec: the query builder is not part of the source file. The query
  that \<open>query("select").where(wAr).manualExec({table})\<close> hands to \<open>_select\<close> is a select
  on the named table whose only clause is the condition \<open>wAr\<close>.
\<close>

definition nested_query :: "string \<Rightarrow> wclause \<Rightarrow> query" where
  "nested_query t w =
     \<lparr> action = ''select'', table = TName t, actionArgs = None, whereQ = Some (WArr w), rangeQ = None,
       trie = None, joinQ = None, groupBy = None, orderBy = None, having = None, offset = None,
       limit = None, orm = None, comments = [], queryID = None \<rparr>"

text \<open>
  The nested select of a full table scan: \<open>_select\<close> on the nested query, whose rows
  are handed to the scan. It looks into the cache and stores its rows there as every
  select does. Its WHERE clause is a single condition, so its own selection issues no
  nested query, and the nested select it is given is never called.
\<close>

definition nested_select :: "parts \<Rightarrow> env \<Rightarrow> schema \<Rightarrow> string \<Rightarrow> wclause \<Rightarrow> (db, row list) exec" where
  "nested_select P e s t w =
     bnd (x_select_with P e s (\<lambda>t' w'. raise TypeError) (nested_query t w)) (\<lambda>r.
       case r of Rows rows \<Rightarrow> ret rows | _ \<Rightarrow> raise TypeError)"

text \<open>\<open>_getRows\<close> and \<open>_select\<close> of the query class.\<close>

definition x_getRows :: "parts \<Rightarrow> env \<Rightarrow> schema \<Rightarrow> query \<Rightarrow> (db, row list) exec" where
  "x_getRows P e s q = x_getRows_with P e s (nested_select P e s) q"

definition x_select :: "parts \<Rightarrow> env \<Rightarrow> schema \<Rightarrow> query \<Rightarrow> (db, qresult) exec" where
  "x_select P e s q = x_select_with P e s (nested_select P e s) q"

text \<open>\<open>actionArgs\<close> read as an object: its fields; an array has its positions for fields.\<close>

definition args_row :: "action_args option \<Rightarrow> row" where
  "args_row a =
     (case a of
        None \<Rightarrow> []
      | Some (ArgRow r) \<Rightarrow> r
      | Some (ArgCols cols) \<Rightarrow> zip (map string_of_nat [0 ..< length cols]) (map Str cols))"

text \<open>
  The branch of \<open>_upsert\<close> for an instance table: every object of the table that is
  among the selected ones is replaced by \<open>{...actionArgs, ...r}\<close>.
\<close>

definition upsert_instance :: "env \<Rightarrow> query \<Rightarrow> (nat \<times> row) list \<Rightarrow> error + row list" where
  "upsert_instance e q tb =
     (case getRows e q tb of
        Inl err \<Rightarrow> Inl err
      | Inr rows \<Rightarrow>
          Inr (map (\<lambda>r. if fst r \<notin> fst ` set rows then snd r
                         else spread (args_row (actionArgs q)) (snd r)) tb))"

text \<open>
  The chain over the selected rows of an upsert with a WHERE clause. The argument of
  \<open>_updateRowViews\<close> is the object \<open>actionArgs\<close> itself, which the view update changes in
  place, so the next row starts from the changed object; without \<open>actionArgs\<close> every row
  starts from a new empty object.
\<close>

fun upsert_rows :: "parts \<Rightarrow> schema \<Rightarrow> string \<Rightarrow> string \<Rightarrow> row option \<Rightarrow> row list \<Rightarrow> (adapter, row list) exec" where
  "upsert_rows P s t pk args [] = ret []"
| "upsert_rows P s t pk args (r # rs) =
     bnd (x_updateSearchIndex P t (getf r pk) r) (\<lambda>u.
     bnd (x_updateRowViews s t (case args of None \<Rightarrow> [] | Some a \<Rightarrow> a) (Some r)) (\<lambda>updatedColumns.
     bnd (x_write s t (getf r pk) (Some r) updatedColumns) (\<lambda>newRow.
     bnd (upsert_rows P s t pk (map_option (\<lambda>a. updatedColumns) args) rs) (\<lambda>newRows.
       ret (newRow # newRows)))))"

definition row_count_msg :: "nat \<Rightarrow> string \<Rightarrow> string" where
  "row_count_msg n what = string_of_nat n @ '' row(s) '' @ what"

definition x_upsert :: "parts \<Rightarrow> env \<Rightarrow> schema \<Rightarrow> query \<Rightarrow> (db, qresult) exec" where
  "x_upsert P e s q =
     bnd (info s (table_key (table q))) (\<lambda>ti.
       case table q of
         TInstance tb \<Rightarrow> bnd (lift (upsert_instance e q tb)) (\<lambda>rows. ret (Rows rows))
       | TName t \<Rightarrow>
           if whereQ q \<noteq> None then
             bnd (x_getRows P e s q) (\<lambda>rows.
               if rows \<noteq> [] then
                 bnd (on_adapter (upsert_rows P s t (x_pk ti)
                        (if actionArgs q = None then None else Some (args_row (actionArgs q))) rows)) (\<lambda>newRows.
                 bnd (clear_cache t) (\<lambda>u.
                 bnd (x_syncORM P s t (comments q) True rows newRows) (\<lambda>u.
                 bnd (on_adapter (x_doAfterQuery s t newRows False)) (\<lambda>u.
                   ret (Affected (row_count_msg (length newRows) ''modfied.'')
                          (map (\<lambda>r. getf r (x_pk ti)) newRows) newRows)))))
               else ret (Affected ''0 row(s) modfied.'' [] []))
           else
             upsert_direct P s (x_syncORM P s t (comments q) True) t (x_pk ti)
               (args_row (actionArgs q)) (comments q))"

text \<open>\<open>_drop\<close> and \<open>_delete\<close>.\<close>

definition x_drop :: "parts \<Rightarrow> env \<Rightarrow> schema \<Rightarrow> query \<Rightarrow> (db, qresult) exec" where
  "x_drop P e s q =
     (case table q of
        TInstance tb \<Rightarrow> ret (Rows [])
      | TName t \<Rightarrow>
          bnd (on_adapter (store_scan t)) (\<lambda>rows.
          bnd (clear_cache t) (\<lambda>u.
          bnd (on_adapter (x_drop_table t)) (\<lambda>u.
          bnd (info s t) (\<lambda>ti.
          bnd (x_syncORM P s t (comments q) False rows []) (\<lambda>u.
          bnd (on_adapter (x_doAfterQuery s t rows True)) (\<lambda>u.
            ret (Affected ([CHR 0x27] @ t @ [CHR 0x27] @ '' table dropped.'')
                   (map (\<lambda>r. getf r (x_pk ti)) rows) rows))))))))"

definition delete_instance :: "env \<Rightarrow> query \<Rightarrow> (nat \<times> row) list \<Rightarrow> error + row list" where
  "delete_instance e q tb =
     (if whereQ q \<noteq> None then
        (case getRows e q tb of
           Inl err \<Rightarrow> Inl err
         | Inr rows \<Rightarrow> Inr (map snd (filter (\<lambda>r. fst r \<notin> fst ` set rows) tb)))
      else Inr [])"

definition x_delete :: "parts \<Rightarrow> env \<Rightarrow> schema \<Rightarrow> query \<Rightarrow> (db, qresult) exec" where
  "x_delete P e s q =
     (case table q of
        TInstance tb \<Rightarrow> bnd (lift (delete_instance e q tb)) (\<lambda>rows. ret (Rows rows))
      | TName t \<Rightarrow>
          if whereQ q \<noteq> None then
            bnd (x_getRows P e s q) (\<lambda>rows.
              if rows \<noteq> [] then
                bnd (info s t) (\<lambda>ti.
                bnd (on_adapter (each (\<lambda>r. bnd (x_clearFromSearchIndex P t (getf r (x_pk ti)) r) (\<lambda>u.
                                               x_delete_row t (getf r (x_pk ti)))) rows)) (\<lambda>us.
                bnd (clear_cache t) (\<lambda>u.
                bnd (x_syncORM P s t (comments q) False rows []) (\<lambda>u.
                bnd (on_adapter (x_doAfterQuery s t rows True)) (\<lambda>u.
                  ret (Affected (row_count_msg (length rows) ''deleted.'')
                         (map (\<lambda>r. getf r (x_pk ti)) rows) rows))))))
              else ret (Affected ''0 row(s) deleted.'' [] []))
          else x_drop P e s q)"

text \<open>\<open>doQuery\<close>: the action looked up in \<open>queryObj\<close> and called; an action that is not a
  key of \<open>queryObj\<close> is \<open>undefined\<close>, and the call raises.\<close>

definition doQuery :: "parts \<Rightarrow> env \<Rightarrow> schema \<Rightarrow> query \<Rightarrow> (db, qresult) exec" where
  "doQuery P e s q =
     (if action q = ''select'' then x_select P e s q
      else if action q = ''upsert'' then x_upsert P e s q
      else if action q = ''delete'' then x_delete P e s q
      else if action q = ''drop'' then x_drop P e s q
      else if action q = ''show tables'' then ret (Names (map fst (tableInfo s)))
      else if action q = ''describe'' then
        (case table q of TName t \<Rightarrow> ret (Described t) | TInstance tb \<Rightarrow> ret NoResult)
      else raise TypeError)"

subsection \<open>The full-text search: tokens, index records and the exact search\<close>

text \<open>A token \<open>{o, w, i}\<close>: the word, its normalised form and its position.\<close>

record token =
  tok_o :: string
  tok_w :: string
  tok_i :: nat

text \<open>
  \<open>_tokenizer(column, value)\<close> for a search-indexed column without a tokenizer of the
  user: lower case; the characters that are neither word characters nor white space,
  and the underscore, are removed; then line breaks and tabs; runs of white space become
  one space; the text is split at the spaces. \<open>norm\<close> is the normalisation of the
  column's mode (stemmer, metaphone, both, or none), which comes from outside.
\<close>

definition is_space :: "char \<Rightarrow> bool" where
  "is_space c = ((of_char c :: nat) \<in> {9, 10, 11, 12, 13, 32})"

definition is_word_char :: "char \<Rightarrow> bool" where
  "is_word_char c =
     (let n = (of_char c :: nat) in (48 \<le> n \<and> n \<le> 57) \<or> (65 \<le> n \<and> n \<le> 90) \<or> (97 \<le> n \<and> n \<le> 122) \<or> n = 95)"

fun collapse_spaces :: "bool \<Rightarrow> string \<Rightarrow> string" where
  "collapse_spaces in_run [] = []"
| "collapse_spaces in_run (c # cs) =
     (if is_space c then (if in_run then collapse_spaces True cs else CHR '' '' # collapse_spaces True cs)
      else c # collapse_spaces False cs)"

text \<open>\<open>s.split(" ")\<close>: the pieces between the spaces; the empty string has one empty piece.\<close>

fun split_spaces :: "string \<Rightarrow> string \<Rightarrow> string list" where
  "split_spaces acc [] = [acc]"
| "split_spaces acc (c # cs) = (if c = CHR '' '' then acc # split_spaces [] cs else split_spaces (acc @ [c]) cs)"

definition words_of :: "string \<Rightarrow> string list" where
  "words_of v =
     split_spaces []
       (collapse_spaces False
         (filter (\<lambda>c. (of_char c :: nat) \<notin> {9, 10, 13})
           (filter (\<lambda>c. (is_word_char c \<or> is_space c) \<and> c \<noteq> CHR ''_'') (toLowerCase v))))"

definition x_tokenizer :: "(string \<Rightarrow> string) \<Rightarrow> string \<Rightarrow> token list" where
  "x_tokenizer norm v =
     map (\<lambda>(i, w). \<lparr> tok_o = w, tok_w = norm w, tok_i = i \<rparr>) (zip [0 ..< length (words_of v)] (words_of v))"

text \<open>
  An entry \<open>{id, l, i}\<close> of an index record: the key of a row, the number of tokens of
  its text and the positions of the word in it. The exact index table of a column maps a
  normalised word to its record.
\<close>

type_synonym search_row = "val \<times> nat \<times> nat list"

type_synonym search_index = "(string \<times> search_row list) list"

text \<open>
  What \<open>_updateSearchIndex\<close> writes to the exact index table for a row that has no
  token record yet: every token is added, the tokens are grouped by their words, and the
  record of each word gets one more entry with the positions of the word.
\<close>

definition positions_of :: "string \<Rightarrow> token list \<Rightarrow> nat list" where
  "positions_of w ts = map tok_i (filter (\<lambda>t. tok_w t = w) ts)"

fun add_entry :: "string \<Rightarrow> search_row \<Rightarrow> search_index \<Rightarrow> search_index" where
  "add_entry w r [] = [(w, [r])]"
| "add_entry w r ((w', rs) # idx) = (if w' = w then (w', rs @ [r]) # idx else (w', rs) # add_entry w r idx)"

definition index_new_row :: "val \<Rightarrow> token list \<Rightarrow> search_index \<Rightarrow> search_index" where
  "index_new_row pk ts idx =
     foldl (\<lambda>acc w. if w = [] then acc else add_entry w (pk, length ts, positions_of w ts) acc)
       idx (remdups (map tok_w ts))"

text \<open>
  \<open>reducedResults\<close>: by the key of a row (as a property name, its string) and by the
  word, the index entry of the row for the word. The row's key itself is kept beside
  its string.
\<close>

type_synonym reduced = "(string \<times> val \<times> (string \<times> search_row) list) list"

fun put_word :: "string \<Rightarrow> search_row \<Rightarrow> (string \<times> search_row) list \<Rightarrow> (string \<times> search_row) list" where
  "put_word w r [] = [(w, r)]"
| "put_word w r ((w', r') # ws) = (if w' = w then (w, r) # ws else (w', r') # put_word w r ws)"

fun put_result :: "string \<Rightarrow> search_row \<Rightarrow> reduced \<Rightarrow> reduced" where
  "put_result w r [] = [(js_String (fst r), fst r, [(w, r)])]"
| "put_result w r ((k, pk, ws) # red) =
     (if k = js_String (fst r) then (k, pk, put_word w r ws) # red else (k, pk, ws) # put_result w r red)"

text \<open>The reads of the exact index for the terms of the search, in order.\<close>

definition reduce_terms :: "search_index \<Rightarrow> token list \<Rightarrow> reduced" where
  "reduce_terms idx searchTerms =
     foldl (\<lambda>red t. case map_of idx (tok_w t) of
                       None \<Rightarrow> red
                     | Some rows \<Rightarrow> foldl (\<lambda>red' r. put_result (tok_w t) r red') red rows)
       [] searchTerms"

text \<open>
  The check of an exact search with more than one term. \<open>startingWord\<close> is the list of
  the positions of the first term in the row. The source goes through these positions
  with their indices in that list: for the position \<open>location\<close> at index \<open>i\<close> it takes
  the term \<open>searchTerms[i + 1]\<close> and, when the row has that term, wants it at the
  position \<open>nextWord.i + location\<close>.
\<close>

definition doingGood :: "token list \<Rightarrow> (string \<times> search_row) list \<Rightarrow> bool" where
  "doingGood searchTerms ws =
     (let startingWord = (case map_of ws (tok_w (hd searchTerms)) of
                            Some (pk, l, locs) \<Rightarrow> locs
                          | None \<Rightarrow> [])
      in list_all (\<lambda>(i, location).
                     if Suc i < length searchTerms then
                       (case map_of ws (tok_w (searchTerms ! Suc i)) of
                          Some (pk, l, locs) \<Rightarrow> tok_i (searchTerms ! Suc i) + location \<in> set locs
                        | None \<Rightarrow> True)
                     else True)
           (zip [0 ..< length startingWord] startingWord))"

text \<open>
  The loop over the rows found for one column, in the exact mode (\<open>whereType === 0\<close>).
  \<open>weights\<close> is kept as the list of its keys: a row is entered when it has as many
  words as the search has terms, and taken out again when the check above fails.
\<close>

definition weigh_row :: "token list \<Rightarrow> (string \<times> val) list \<Rightarrow> string \<times> val \<times> (string \<times> search_row) list \<Rightarrow> (string \<times> val) list" where
  "weigh_row searchTerms weights kr =
     (case kr of (k, pk, ws) \<Rightarrow>
        if length ws \<noteq> length searchTerms then weights
        else
          (let weights' = (if k \<in> fst ` set weights then weights else weights @ [(k, pk)]) in
           if 1 < length searchTerms \<and> \<not> doingGood searchTerms ws
           then filter (\<lambda>kv. fst kv \<noteq> k) weights'
           else weights'))"

text \<open>
  The exact search \<open>["search(col, ...)", "=", value]\<close>: for each column its exact index
  and the tokens of the value; the result is the list of the keys of \<open>weights\<close> at the
  end, the rows the selection then reads. The weights themselves, fractions, are not
  modelled, nor is the order in which the host lists the keys of an object.
\<close>

definition search_exact :: "(search_index \<times> token list) list \<Rightarrow> val list" where
  "search_exact cols =
     map snd (foldl (\<lambda>weights (idx, searchTerms).
                       foldl (weigh_row searchTerms) weights (reduce_terms idx searchTerms))
                [] cols)"

text \<open>
  The reading of the specification, to compare the search with: the normalised words of
  the search appear in the row's text at consecutive positions, in order.
\<close>

fun list_prefix :: "string list \<Rightarrow> string list \<Rightarrow> bool" where
  "list_prefix [] ys = True"
| "list_prefix (x # xs) [] = False"
| "list_prefix (x # xs) (y # ys) = (x = y \<and> list_prefix xs ys)"

fun occurs_contiguously :: "string list \<Rightarrow> string list \<Rightarrow> bool" where
  "occurs_contiguously qs [] = (qs = [])"
| "occurs_contiguously qs (w # ws) = (list_prefix qs (w # ws) \<or> occurs_contiguously qs ws)"

definition spec_matches :: "(string \<Rightarrow> string) \<Rightarrow> string \<Rightarrow> string \<Rightarrow> bool" where
  "spec_matches norm text_value search_value =
     occurs_contiguously (map tok_w (x_tokenizer norm search_value)) (map tok_w (x_tokenizer norm text_value))"

subsection \<open>Concrete instances, continued\<close>

text \<open>Writes to the adapter, and what it means that a step has written nothing: the
  rows, the cache and the writes logged are the same after it as before.\<close>

fun is_write :: "adapter_op \<Rightarrow> bool" where
  "is_write (OpWrite t k) = True"
| "is_write (OpDelete t k) = True"
| "is_write (OpDrop t) = True"
| "is_write opn = False"

definition unwritten :: "db \<Rightarrow> db \<Rightarrow> bool" where
  "unwritten d d' =
     (rowsOf (adapterOf d') = rowsOf (adapterOf d) \<and> x_cache d' = x_cache d \<and>
      filter is_write (oplog (adapterOf d')) = filter is_write (oplog (adapterOf d)))"

text \<open>
  A store with four tables: \<open>posts\<close> and \<open>tags\<close>, related through the array columns
  \<open>posts.tags\<close> and \<open>tags.posts\<close>, and \<open>users\<close> and \<open>orders\<close>, where \<open>orders.userName\<close>
  is a LIVE view of \<open>users.name\<close> through \<open>orders.userId\<close>. The parts of the engine that
  are parameters are the simplest ones: no full-text index, no trie, no join, a selection
  by key that delivers the rows matching the clause, one registered function \<open>COUNT\<close>,
  rows left in the order they have.
\<close>

definition demo_schema :: schema where
  "demo_schema =
     \<lparr> tableInfo =
         [(''posts'', \<lparr> x_pk = ''id'', x_views = [], x_viewTables = [], x_secondaryIndexes = [] \<rparr>),
          (''tags'', \<lparr> x_pk = ''id'', x_views = [], x_viewTables = [], x_secondaryIndexes = [] \<rparr>),
          (''users'', \<lparr> x_pk = ''id'', x_views = [], x_viewTables = [(''orders'', ''userId'')],
                        x_secondaryIndexes = [] \<rparr>),
          (''orders'', \<lparr> x_pk = ''id'',
                         x_views = [(''users'', \<lparr> pkColumn = ''userId'',
                                                     viewColumns = [(''userName'', ''name'')],
                                                     viewMode = LIVE \<rparr>)],
                         x_viewTables = [], x_secondaryIndexes = [''userId''] \<rparr>)],
       x_hasViews = True,
       x_hasORM = True,
       x_relToTable =
         [(''posts'', [\<lparr> x_thisColumn = ''tags'', x_thisType = ArrayT, x_fromTable = ''tags'',
                          x_fromColumn = ''posts'', x_fromType = ArrayT \<rparr>]),
          (''tags'', [\<lparr> x_thisColumn = ''posts'', x_thisType = ArrayT, x_fromTable = ''posts'',
                         x_fromColumn = ''tags'', x_fromType = ArrayT \<rparr>])],
       x_doCache = True \<rparr>"

definition demo_rows :: "string \<Rightarrow> (val \<times> row) list" where
  "demo_rows t =
     (if t = ''users'' then [(Num 5, [(''id'', Num 5), (''name'', Str ''Ada'')])]
      else if t = ''posts'' then [(Num 9, [(''id'', Num 9), (''tags'', Arr [Num 1, Num 2])])]
      else if t = ''tags'' then
        [(Num 1, [(''id'', Num 1), (''posts'', Arr [Num 9])]),
         (Num 2, [(''id'', Num 2), (''posts'', Arr [Num 9])]),
         (Num 3, [(''id'', Num 3), (''posts'', Arr [])])]
      else [])"

definition demo_adapter :: adapter where
  "demo_adapter =
     \<lparr> rowsOf = demo_rows, oplog = [], freezes = False, toInclusive = True,
       newKey = (\<lambda>rs. Num (int (length rs) + 1)) \<rparr>"

definition demo_db :: db where
  "demo_db = \<lparr> adapterOf = demo_adapter, x_cache = (\<lambda>t. Some []) \<rparr>"

definition demo_parts :: parts where
  "demo_parts =
     \<lparr> fingerprint = (\<lambda>q. action q @ (case limit q of None \<Rightarrow> [] | Some n \<Rightarrow> ''/limit '' @ string_of_int n)),
       x_updateSearchIndex = (\<lambda>t k r. ret ()),
       x_clearFromSearchIndex = (\<lambda>t k r. ret ()),
       x_trieRead = (\<lambda>t c p a. Inr []),
       x_selectByKeysOrSeach =
         (\<lambda>t w a. filter_idx (\<lambda>r i. x_where flat_env r w i False None []) 0 (map snd (rowsOf a t))),
       x_join = (\<lambda>q rows a. Inr rows),
       x_orm = (\<lambda>q rows. ret rows),
       functionsOf = (\<lambda>n. n = ''COUNT''),
       applyFunctions = (\<lambda>q rows. rows),
       sortRows = (\<lambda>cols resolvePaths rows. rows) \<rparr>"

definition demo_relation :: relation where
  "demo_relation =
     \<lparr> x_thisColumn = ''tags'', x_thisType = ArrayT, x_fromTable = ''tags'',
       x_fromColumn = ''posts'', x_fromType = ArrayT \<rparr>"

text \<open>Queries on the store above: a query with no clause at all, from which the others
  are made.\<close>

definition blank_query :: query where
  "blank_query =
     \<lparr> action = ''select'', table = TName ''tags'', actionArgs = None, whereQ = None, rangeQ = None,
       trie = None, joinQ = None, groupBy = None, orderBy = None, having = None, offset = None,
       limit = None, orm = None, comments = [], queryID = None \<rparr>"

definition tag1 :: row where "tag1 = [(''id'', Num 1), (''posts'', Arr [Num 9])]"
definition tag2 :: row where "tag2 = [(''id'', Num 2), (''posts'', Arr [Num 9])]"
definition tag3 :: row where "tag3 = [(''id'', Num 3), (''posts'', Arr [])]"

text \<open>An upsert on the instance table \<open>[{a: 1}]\<close> with \<open>where = ["a", "=", 1]\<close> and
  \<open>actionArgs = {a: 2}\<close>.\<close>

definition instance_upsert :: query where
  "instance_upsert =
     blank_query\<lparr> action := ''upsert'', table := TInstance [(0, [(''a'', Num 1)])],
       actionArgs := Some (ArgRow [(''a'', Num 2)]),
       whereQ := Some (WArr (WSingle ''a'' ''='' (Num 1))) \<rparr>"

text \<open>The rows of a table at the positions of a range, as the adapter reads the range.\<close>

definition rows_at :: "adapter \<Rightarrow> string \<Rightarrow> int \<Rightarrow> int \<Rightarrow> row list" where
  "rows_at a t fromIdx toIdx =
     map (\<lambda>i. snd (rowsOf a t ! i)) (filter (in_range (toInclusive a) fromIdx toIdx) [0 ..< length (rowsOf a t)])"

text \<open>The store with one order that refers to the user 5, once with an adapter that
  hands out frozen rows and once with one that does not; and the deletion of that user.\<close>

definition order1 :: row where
  "order1 = [(''id'', Num 1), (''userId'', Num 5), (''userName'', Str ''Ada'')]"

definition orders_db :: "bool \<Rightarrow> db" where
  "orders_db frozen =
     demo_db\<lparr> adapterOf := demo_adapter\<lparr> rowsOf := demo_rows(''orders'' := [(Num 1, order1)]),
                                           freezes := frozen \<rparr> \<rparr>"

definition delete_user5 :: query where
  "delete_user5 =
     blank_query\<lparr> action := ''delete'', table := TName ''users'',
       whereQ := Some (WArr (WSingle ''id'' ''='' (Num 5))) \<rparr>"

subsection \<open>Steps and properties of the store\<close>

text \<open>
  Two ways a step relates to a property of the store: it keeps the property when the
  property holds after the step whenever it held before (whether the step completes or
  raises), and it establishes the property when the property holds after every run of
  the step that completes.
\<close>

definition keeps :: "(db \<Rightarrow> bool) \<Rightarrow> (db, 'a) exec \<Rightarrow> bool" where
  "keeps I m = (\<forall>d. I d \<longrightarrow> I (snd (m d)))"


text \<open>The cache of the table \<open>t\<close> is empty.\<close>

definition cache_empty :: "string \<Rightarrow> db \<Rightarrow> bool" where
  "cache_empty t d = (x_cache d t = Some [])"




text \<open>A step on the adapter that reads only: the rows and the writes logged are the same
  after it as before.\<close>

definition reads_only :: "(adapter, 'a) exec \<Rightarrow> bool" where
  "reads_only m =
     (\<forall>a. rowsOf (snd (m a)) = rowsOf a \<and> filter is_write (oplog (snd (m a))) = filter is_write (oplog a))"








text \<open>An upsert on \<open>tags\<close> whose WHERE clause is a \<open>search(...)\<close> condition or a condition
  on a column without an index: the selection is a full table scan with a nested
  select.\<close>

definition upsert_search_or :: query where
  "upsert_search_or =
     blank_query\<lparr> action := ''upsert'', actionArgs := Some (ArgRow [(''label'', Str ''new'')]),
       whereQ := Some (WArr (WCompound [WLeaf ''search(label)'' ''='' (Str ''x''), WConn ''OR'',
                                          WLeaf ''label'' ''='' (Str ''y'')])) \<rparr>"

section \<open>Properties\<close>

subsection \<open>The evaluator of compound clauses\<close>

lemma reduce_decided:
  "where_reduce ev hasOr ws idx prev (Some d) pc tr = (tr, Inr (if ws = [] then prev else d))"
  by (induction ws arbitrary: idx prev) auto

lemma reduce_or:
  "idx mod 2 = 1 \<Longrightarrow> leaf_values ev idx cls = Some cbs \<Longrightarrow>
   where_reduce ev True (alternate cls) idx prev None pc tr
     = (tr @ leaf_positions idx cls, Inr (fold_connectives prev cbs))"
proof (induction cls arbitrary: idx prev pc tr cbs)
  case Nil
  then show ?case by simp
next
  case (Cons a cls)
  obtain c l where a: "a = (c, l)" by (cases a)
  from Cons.prems(2) a obtain b cbs' where
    b: "ev (Suc idx) l = Inr b" and r: "leaf_values ev (idx + 2) cls = Some cbs'" and
    cbs: "cbs = (c, b) # cbs'"
    by (auto split: sum.splits)
  have odd: "(idx + 2) mod 2 = 1" using Cons.prems(1) by simp
  have ev: "Suc idx mod 2 = 0" using Cons.prems(1) by presburger
  show ?case
    using Cons.IH[OF odd r] Cons.prems(1) b ev
    by (simp add: a cbs)
qed

lemma fold_and_false:
  "\<forall>(c, b) \<in> set cbs. c = ''AND'' \<Longrightarrow> fold_connectives False cbs = False"
  by (induction cbs) auto

lemma leaf_values_and:
  "leaf_values ev idx cls = Some cbs \<Longrightarrow> \<forall>(c, l) \<in> set cls. c = ''AND'' \<Longrightarrow>
   \<forall>(c, b) \<in> set cbs. c = ''AND''"
  by (induction cls arbitrary: idx cbs) (auto split: sum.splits, blast)

lemma reduce_and_value:
  "idx mod 2 = 1 \<Longrightarrow> leaf_values ev idx cls = Some cbs \<Longrightarrow> \<forall>(c, l) \<in> set cls. c = ''AND'' \<Longrightarrow>
   snd (where_reduce ev False (alternate cls) idx prev None pc tr) = Inr (fold_connectives prev cbs)"
proof (induction cls arbitrary: idx prev pc tr cbs)
  case Nil
  then show ?case by simp
next
  case (Cons a cls)
  obtain c l where a: "a = (c, l)" by (cases a)
  from Cons.prems(2) a obtain b cbs' where
    b: "ev (Suc idx) l = Inr b" and r: "leaf_values ev (idx + 2) cls = Some cbs'" and
    cbs: "cbs = (c, b) # cbs'"
    by (auto split: sum.splits)
  have odd: "(idx + 2) mod 2 = 1" using Cons.prems(1) by simp
  have ev: "Suc idx mod 2 = 0" using Cons.prems(1) by presburger
  have c: "c = ''AND''" using Cons.prems(3) a by simp
  have rest: "\<forall>(c, l) \<in> set cls. c = ''AND''" using Cons.prems(3) by simp
  have ands: "\<forall>(c, b) \<in> set cbs'. c = ''AND''"
    using leaf_values_and[OF r rest] .
  show ?case
  proof (cases b)
    case True
    then show ?thesis
      using Cons.IH[OF odd r rest] Cons.prems(1) b ev by (simp add: a cbs c)
  next
    case False
    then show ?thesis
      using Cons.prems(1) b ev fold_and_false[OF ands]
      by (simp add: a cbs c reduce_decided)
  qed
qed

lemma reduce_and_stop:
  "idx mod 2 = 1 \<Longrightarrow> leaf_values ev idx pre = Some cbs \<Longrightarrow> \<forall>(c, b) \<in> set cbs. b \<Longrightarrow>
   ev (Suc (idx + 2 * length pre)) l = Inr False \<Longrightarrow>
   where_reduce ev False (alternate (pre @ (c, l) # post)) idx True None pc tr
     = (tr @ leaf_positions idx (pre @ [(c, l)]), Inr False)"
proof (induction pre arbitrary: idx pc tr cbs)
  case Nil
  have ev: "Suc idx mod 2 = 0" using Nil.prems(1) by presburger
  show ?case using Nil ev by (simp add: reduce_decided)
next
  case (Cons a pre)
  obtain c' l' where a: "a = (c', l')" by (cases a)
  from Cons.prems(2) a obtain b cbs' where
    b: "ev (Suc idx) l' = Inr b" and r: "leaf_values ev (idx + 2) pre = Some cbs'" and
    cbs: "cbs = (c', b) # cbs'"
    by (auto split: sum.splits)
  have bt: "b" and rest: "\<forall>(c, b) \<in> set cbs'. b" using Cons.prems(3) cbs by auto
  have odd: "(idx + 2) mod 2 = 1" using Cons.prems(1) by simp
  have ev: "Suc idx mod 2 = 0" using Cons.prems(1) by presburger
  have last: "ev (Suc (idx + 2 + 2 * length pre)) l = Inr False" using Cons.prems(4) by simp
  show ?case
    using Cons.IH[OF odd r rest last] Cons.prems(1) b bt ev
    by (simp add: a)
qed


lemma no_or_all_and:
  "well_formed cls \<Longrightarrow> WConn ''OR'' \<notin> set (alternate cls) \<Longrightarrow> \<forall>(c, l) \<in> set cls. c = ''AND''"
  by (induction cls) (auto simp: well_formed_def)

text \<open>
  Claim C5. For a compound clause of conditions alternating with the connectives AND and
  OR, the evaluator returns the left-to-right fold of the values of the conditions
  (first conjunct, with or without an OR in the clause, so the early exit does not change
  the result). When the clause has no OR, the evaluation stops at the first false
  condition and returns false: the positions evaluated are those up to that condition,
  whatever the later conditions are (second and third conjunct). When the clause has an
  OR, the condition at every even position is evaluated (fourth conjunct).
\<close>

theorem where_compound_fold:
  assumes "is_leaf l0" and "well_formed cls"
  shows
    "(compareResult e r ign sc pk 0 l0 = Inr b0 \<and>
      leaf_values (compareResult e r ign sc pk) 1 cls = Some cbs
        \<longrightarrow> x_where e r (WCompound (l0 # alternate cls)) i ign sc pk = Inr (fold_connectives b0 cbs))
     \<and> (WConn ''OR'' \<notin> set (l0 # alternate cls) \<and> compareResult e r ign sc pk 0 l0 = Inr False
        \<longrightarrow> where_traced e r (WCompound (l0 # alternate cls)) i ign sc pk = ([0], Inr False))
     \<and> (WConn ''OR'' \<notin> set (l0 # alternate cls) \<and> compareResult e r ign sc pk 0 l0 = Inr True \<and>
        cls = pre @ (c, l) # post \<and>
        leaf_values (compareResult e r ign sc pk) 1 pre = Some cbs' \<and> (\<forall>(c', b) \<in> set cbs'. b) \<and>
        compareResult e r ign sc pk (2 * length pre + 2) l = Inr False
        \<longrightarrow> where_traced e r (WCompound (l0 # alternate cls)) i ign sc pk
              = (0 # leaf_positions 1 (pre @ [(c, l)]), Inr False))
     \<and> (WConn ''OR'' \<in> set (l0 # alternate cls) \<and> compareResult e r ign sc pk 0 l0 = Inr b0 \<and>
        leaf_values (compareResult e r ign sc pk) 1 cls = Some cbs
        \<longrightarrow> fst (where_traced e r (WCompound (l0 # alternate cls)) i ign sc pk)
              = 0 # leaf_positions 1 cls)"
proof -
  let ?ev = "compareResult e r ign sc pk"
  let ?ws = "l0 # alternate cls"
  have l0: "l0 \<noteq> WConn ''OR''" using assms(1) by (auto simp: is_leaf_def)
  have A: "x_where e r (WCompound ?ws) i ign sc pk = Inr (fold_connectives b0 cbs)"
    if b0: "?ev 0 l0 = Inr b0" and vs: "leaf_values ?ev 1 cls = Some cbs"
  proof (cases "WConn ''OR'' \<in> set ?ws")
    case True
    then show ?thesis
      using reduce_or[of 1 ?ev cls cbs b0 None "[0]"] b0 vs
      by (simp add: x_where_def where_traced_def)
  next
    case False
    then have ands: "\<forall>(c, l) \<in> set cls. c = ''AND''"
      using no_or_all_and[OF assms(2)] by simp
    have ands': "\<forall>(c, b) \<in> set cbs. c = ''AND''" using leaf_values_and[OF vs ands] .
    show ?thesis
    proof (cases b0)
      case True
      then show ?thesis
        using reduce_and_value[of 1 ?ev cls cbs True None "[0]"] b0 vs ands False
        by (simp add: x_where_def where_traced_def)
    next
      case b0f: False
      then show ?thesis
        using b0 False fold_and_false[OF ands']
        by (simp add: x_where_def where_traced_def reduce_decided)
    qed
  qed
  have B: "where_traced e r (WCompound ?ws) i ign sc pk = ([0], Inr False)"
    if "WConn ''OR'' \<notin> set ?ws" and "?ev 0 l0 = Inr False"
    using that by (simp add: where_traced_def reduce_decided)
  have C: "where_traced e r (WCompound ?ws) i ign sc pk = (0 # leaf_positions 1 (pre @ [(c, l)]), Inr False)"
    if "WConn ''OR'' \<notin> set ?ws" and "?ev 0 l0 = Inr True" and cls: "cls = pre @ (c, l) # post"
      and vs: "leaf_values ?ev 1 pre = Some cbs'" and tr: "\<forall>(c', b) \<in> set cbs'. b"
      and f: "?ev (2 * length pre + 2) l = Inr False"
  proof -
    have f': "?ev (Suc (1 + 2 * length pre)) l = Inr False" using f by simp
    show ?thesis
      using reduce_and_stop[of 1 ?ev pre cbs' l c post None "[0]", OF _ vs tr f'] that(1,2)
      by (simp add: where_traced_def cls)
  qed
  have D: "fst (where_traced e r (WCompound ?ws) i ign sc pk) = 0 # leaf_positions 1 cls"
    if "WConn ''OR'' \<in> set ?ws" and b0: "?ev 0 l0 = Inr b0" and vs: "leaf_values ?ev 1 cls = Some cbs"
    using reduce_or[of 1 ?ev cls cbs b0 None "[0]"] that
    by (simp add: where_traced_def)
  show ?thesis using A B C D by blast
qed


theorem where_compound_fold_witness:
  "is_leaf (WLeaf ''a'' ''='' ((Num 1)))
   \<and> well_formed [(''AND'', WLeaf ''b'' ''='' ((Num 3))), (''AND'', WLeaf ''a'' ''REGEX'' ((Str ''x'')))]
   \<and> WConn ''OR'' \<notin> set (WLeaf ''a'' ''='' ((Num 1)) #
        alternate [(''AND'', WLeaf ''b'' ''='' ((Num 3))), (''AND'', WLeaf ''a'' ''REGEX'' ((Str ''x'')))])
   \<and> compareResult flat_env demo_row False None ''a'' 0 (WLeaf ''a'' ''='' ((Num 1))) = Inr True
   \<and> compareResult flat_env demo_row False None ''a'' 2 (WLeaf ''b'' ''='' ((Num 3))) = Inr False
   \<and> compareResult flat_env demo_row False None ''a'' 4 (WLeaf ''a'' ''REGEX'' ((Str ''x''))) = Inl TypeError
   \<and> where_traced flat_env demo_row
        (WCompound [WLeaf ''a'' ''='' ((Num 1)), WConn ''AND'', WLeaf ''b'' ''='' ((Num 3)),
                    WConn ''AND'', WLeaf ''a'' ''REGEX'' ((Str ''x''))]) 0 False None ''a''
       = ([0, 2], Inr False)
   \<and> is_leaf (WLeaf ''a'' ''='' ((Num 2)))
   \<and> well_formed [(''OR'', WLeaf ''b'' ''='' ((Num 2))), (''AND'', WLeaf ''a'' ''='' ((Num 1)))]
   \<and> x_where flat_env demo_row
        (WCompound [WLeaf ''a'' ''='' ((Num 2)), WConn ''OR'', WLeaf ''b'' ''='' ((Num 2)),
                    WConn ''AND'', WLeaf ''a'' ''='' ((Num 1))]) 0 False None ''a''
       = Inr ((False \<or> True) \<and> True)
   \<and> fst (where_traced flat_env demo_row
        (WCompound [WLeaf ''a'' ''='' ((Num 2)), WConn ''OR'', WLeaf ''b'' ''='' ((Num 2)),
                    WConn ''AND'', WLeaf ''a'' ''='' ((Num 1))]) 0 False None ''a'')
       = [0, 2, 4]"
proof -
  let ?e = "compareResult flat_env demo_row False None ''a''"
  have ev: "?e 0 (WLeaf ''a'' ''='' ((Num 1))) = Inr True"
    "?e 2 (WLeaf ''b'' ''='' ((Num 3))) = Inr False"
    "?e 4 (WLeaf ''a'' ''REGEX'' ((Str ''x''))) = Inl TypeError"
    "?e 0 (WLeaf ''a'' ''='' ((Num 2))) = Inr False"
    "?e 2 (WLeaf ''b'' ''='' ((Num 2))) = Inr True"
    "?e 4 (WLeaf ''a'' ''='' ((Num 1))) = Inr True"
    by (simp_all add: compareResult_def flat_env_def demo_row_def x_compare_def setValue_def getf_def)
  have wf: "is_leaf (WLeaf ''a'' ''='' ((Num 1)))" "is_leaf (WLeaf ''a'' ''='' ((Num 2)))"
    "well_formed [(''AND'', WLeaf ''b'' ''='' ((Num 3))), (''AND'', WLeaf ''a'' ''REGEX'' ((Str ''x'')))]"
    "well_formed [(''OR'', WLeaf ''b'' ''='' ((Num 2))), (''AND'', WLeaf ''a'' ''='' ((Num 1)))]"
    by (simp_all add: is_leaf_def well_formed_def)
  note t1 = where_compound_fold[where ?l0.0 = "WLeaf ''a'' ''='' ((Num 1))"
      and cls = "[(''AND'', WLeaf ''b'' ''='' ((Num 3))), (''AND'', WLeaf ''a'' ''REGEX'' ((Str ''x'')))]"
      and e = flat_env and r = demo_row and ign = False and sc = None and pk = "''a''" and i = 0
      and pre = "[]" and c = "''AND''" and l = "WLeaf ''b'' ''='' ((Num 3))"
      and post = "[(''AND'', WLeaf ''a'' ''REGEX'' ((Str ''x'')))]" and cbs' = "[]", OF wf(1) wf(3)]
  note t2 = where_compound_fold[where ?l0.0 = "WLeaf ''a'' ''='' ((Num 2))"
      and cls = "[(''OR'', WLeaf ''b'' ''='' ((Num 2))), (''AND'', WLeaf ''a'' ''='' ((Num 1)))]"
      and e = flat_env and r = demo_row and ign = False and sc = None and pk = "''a''" and i = 0
      and ?b0.0 = False and cbs = "[(''OR'', True), (''AND'', True)]", OF wf(2) wf(4)]
  show ?thesis
    using t1 t2 ev wf by (simp add: eval_nat_numeral)
qed

subsection \<open>The synchronisation of relationships\<close>

lemma unwritten_refl: "unwritten d d"
  by (simp add: unwritten_def)

lemma unwritten_trans: "unwritten d d' \<Longrightarrow> unwritten d' d'' \<Longrightarrow> unwritten d d''"
  by (simp add: unwritten_def)

lemma keep_missing_all_found:
  "\<forall>y \<in> set ys. \<exists>x \<in> set xs. strict_eq x y \<Longrightarrow> keep_missing (Arr xs) ys = Inr []"
  by (induction ys) auto

lemma zip_same: "set (zip xs xs) = (\<lambda>x. (x, x)) ` set xs"
  by (induction xs) auto

lemma not_equals_same:
  "\<not> equals (Arr xs) (Arr xs) \<Longrightarrow> \<forall>x \<in> set xs. strict_eq x x"
  by (auto simp: equals_def filter_empty_conv zip_same)

lemma missing_from_same:
  assumes "\<not> equals (Arr xs) (Arr xs)"
  shows "missing_from (Arr xs) (Arr xs) = Inr (Arr [])"
proof -
  have "\<forall>y \<in> set xs. \<exists>x \<in> set xs. strict_eq x y"
    using not_equals_same[OF assms] by blast
  then have "keep_missing (Arr xs) xs = Inr []" by (rule keep_missing_all_found)
  then show ?thesis by (simp add: missing_from_def)
qed

lemma adapter_read_oplog: "adapter_read (a\<lparr>oplog := l\<rparr>) t k = adapter_read a t k"
  by (cases "(a, t, k)" rule: adapter_read.cases) simp_all

lemma unwritten_bnd:
  assumes "unwritten d (snd (m d))"
    and "\<And>x d'. m d = (Inr x, d') \<Longrightarrow> unwritten d' (snd (f x d'))"
  shows "unwritten d (snd (bnd m f d))"
proof (cases "m d")
  case (Pair r d')
  show ?thesis
  proof (cases r)
    case (Inl err)
    then show ?thesis using Pair assms(1) by (simp add: bnd_def)
  next
    case (Inr x)
    then show ?thesis
      using Pair assms(1) assms(2)[of x d'] unwritten_trans[of d d' "snd (f x d')"]
      by (simp add: bnd_def)
  qed
qed

lemma store_read_none:
  "\<forall>k \<in> set pks. adapter_read (adapterOf d) t k = None \<Longrightarrow>
   \<exists>d'. on_adapter (store_read t pks) d = (Inr [], d') \<and> unwritten d d'"
  by (auto simp: on_adapter_def store_read_def bnd_def logged_def unwritten_def
      List.map_filter_def filter_empty_conv adapter_read_oplog)

lemma updateORMRows_no_rows:
  assumes "\<forall>k \<in> set pks. adapter_read (adapterOf d) (x_fromTable rel) k = None"
  shows "unwritten d (snd (x_updateORMRows s upsert rel (Arr pks) add primaryKey d))"
proof (cases "map_of (tableInfo s) (x_fromTable rel)")
  case None
  then show ?thesis
    by (simp add: x_updateORMRows_def bnd_def info_def raise_def unwritten_refl)
next
  case (Some fi)
  from store_read_none[OF assms] obtain d' where
    r: "on_adapter (store_read (x_fromTable rel) pks) d = (Inr [], d')" and u: "unwritten d d'"
    by blast
  show ?thesis
    using Some r u
    by (simp add: x_updateORMRows_def bnd_def info_def ret_def)
qed

lemma adapter_read_arr: "adapter_read a t (Arr xs) = None"
  by simp

text \<open>
  Claim C1. On an upsert where a previous row record exists and the relationship column
  of the old row has the same value as that of the new row (the same scalar, or arrays
  with the same elements at every position), the synchroniser updates no remote row for
  that relation: whatever upsert it would issue, after the step for the relation the rows
  of every table, the cache and the writes logged by the adapter are what they were
  before. For arrays the helper \<open>equals\<close> answers false, but the sets of keys to add and
  to remove are then empty and the read of no key delivers no row.
\<close>

theorem syncORM_equal_no_update:
  assumes "getf ol (x_thisColumn rel) = getf new (x_thisColumn rel)"
  shows "unwritten d (snd (syncORM_add s upsert pk rel (Some ol) new d))"
proof (cases "equals (getf ol (x_thisColumn rel)) (getf new (x_thisColumn rel))")
  case True
  then show ?thesis
    by (simp add: syncORM_add_def ret_def unwritten_refl)
next
  case False
  let ?v = "getf new (x_thisColumn rel)"
  from False assms have ne: "\<not> equals ?v ?v" by simp
  then obtain xs where v: "?v = Arr xs"
    by (cases ?v) (auto simp: equals_def)
  have ne': "\<not> equals (Arr xs) (Arr xs)" using ne v by simp
  show ?thesis
  proof (cases "x_thisType rel = ArrayT")
    case True
    have m: "missing_from (Arr xs) (Arr xs) = Inr (Arr [])" using missing_from_same[OF ne'] .
    have "unwritten d (snd (bnd (x_updateORMRows s upsert rel (Arr []) True (getf new pk))
             (\<lambda>u. x_updateORMRows s upsert rel (Arr []) False (getf new pk)) d))"
      by (rule unwritten_bnd) (rule updateORMRows_no_rows, simp)+
    then show ?thesis
      using True False assms v m
      by (simp add: syncORM_add_def bnd_def lift_def Let_def)
  next
    case single: False
    have "unwritten d (snd (bnd (x_updateORMRows s upsert rel (Arr [Arr xs]) False (getf new pk))
             (\<lambda>u. x_updateORMRows s upsert rel (Arr [Arr xs]) True (getf new pk)) d))"
      by (rule unwritten_bnd) (rule updateORMRows_no_rows, simp)+
    then show ?thesis
      using single False assms v
      by (simp add: syncORM_add_def Let_def)
  qed
qed


theorem syncORM_equal_no_update_witness:
  "getf [(''id'', Num 9), (''tags'', Arr [Num 1, Num 2])] (x_thisColumn demo_relation)
     = getf [(''id'', Num 9), (''tags'', Arr [Num 1, Num 2])] (x_thisColumn demo_relation)
   \<and> unwritten demo_db
        (snd (syncORM_add demo_schema (upsert_orm_skip demo_parts demo_schema) ''id'' demo_relation
               (Some [(''id'', Num 9), (''tags'', Arr [Num 1, Num 2])])
               [(''id'', Num 9), (''tags'', Arr [Num 1, Num 2])] demo_db))"
  using syncORM_equal_no_update[of "[(''id'', Num 9), (''tags'', Arr [Num 1, Num 2])]" demo_relation
      "[(''id'', Num 9), (''tags'', Arr [Num 1, Num 2])]" demo_db demo_schema
      "upsert_orm_skip demo_parts demo_schema" "''id''"]
  by simp

subsection \<open>The local view projection on a new row\<close>

lemma updateRowView_skip:
  "getf row (pkColumn (snd tv)) = Undefined \<Longrightarrow> updateRowView tv ex row a = (Inr row, a)"
  by (simp add: updateRowView_def ret_def)

lemma updateRowView_null:
  "getf row (pkColumn (snd tv)) \<noteq> Undefined \<Longrightarrow> updateRowView tv None row a = (Inl TypeError, a)"
  by (simp add: updateRowView_def raise_def)

lemma updateRowViews_all_null:
  "\<exists>tv \<in> set vs. getf row (pkColumn (snd tv)) \<noteq> Undefined \<Longrightarrow>
   updateRowViews_all vs None row a = (Inl TypeError, a)"
proof (induction vs)
  case Nil
  then show ?case by simp
next
  case (Cons tv vs)
  show ?case
  proof (cases "getf row (pkColumn (snd tv)) = Undefined")
    case True
    then have "\<exists>tv \<in> set vs. getf row (pkColumn (snd tv)) \<noteq> Undefined" using Cons.prems by auto
    then show ?thesis using Cons.IH True by (simp add: bnd_def updateRowView_skip)
  next
    case False
    then show ?thesis by (simp add: bnd_def updateRowView_null)
  qed
qed

lemma updateRowViews_null_existing:
  assumes "x_hasViews s" and "map_of (tableInfo s) t = Some ti"
    and "\<exists>tv \<in> set (x_views ti). getf row (pkColumn (snd tv)) \<noteq> Undefined"
  shows "x_updateRowViews s t row None a = (Inl TypeError, a)"
  using assms updateRowViews_all_null[OF assms(3)]
  by (simp add: x_updateRowViews_def bnd_def info_def ret_def)

text \<open>
  Claim C10 (refuted by the code). A direct upsert on a table with views, of a row that
  sets the key column of a view, when no row is stored under the key of the incoming row
  (or the comment \<open>_rebuild_search_index\<close> is present): the write proceeds with
  \<open>null\<close> for the old row, and the local view update reads a property of it. The step
  raises \<open>TypeError\<close>; no row is written.
\<close>

theorem upsert_direct_new_row_raises:
  assumes "x_hasViews s" and "map_of (tableInfo s) t = Some ti"
    and "\<exists>tv \<in> set (x_views ti). getf row (pkColumn (snd tv)) \<noteq> Undefined"
    and "adapter_read (adapterOf d) t (getf row pk) = None \<or> ''_rebuild_search_index'' \<in> set cmts"
  shows "fst (upsert_direct P s sync t pk row cmts d) = Inl TypeError
         \<and> rowsOf (adapterOf (snd (upsert_direct P s sync t pk row cmts d))) = rowsOf (adapterOf d)"
proof -
  let ?d1 = "d\<lparr>x_cache := (x_cache d)(t := Some [])\<rparr>"
  have v: "\<And>a. x_updateRowViews s t row None a = (Inl TypeError, a)"
    using updateRowViews_null_existing[OF assms(1-3)] .
  show ?thesis
  proof (cases "getf row pk \<noteq> Undefined \<and> ''_rebuild_search_index'' \<notin> set cmts")
    case True
    then have none: "adapter_read (adapterOf d) t (getf row pk) = None" using assms(4) by simp
    have none': "\<And>l. adapter_read (adapterOf d\<lparr>oplog := l\<rparr>) t (getf row pk) = None"
      using none by (cases "(adapterOf d, t, getf row pk)" rule: adapter_read.cases) simp_all
    show ?thesis
      using True v none'
      by (simp add: upsert_direct_def bnd_def clear_cache_def on_adapter_def store_read_def
          logged_def ret_def List.map_filter_def)
  next
    case False
    then show ?thesis
      using v
      by (auto simp add: upsert_direct_def bnd_def clear_cache_def on_adapter_def ret_def)
  qed
qed


theorem upsert_direct_new_row_raises_witness:
  "x_hasViews demo_schema
   \<and> map_of (tableInfo demo_schema) ''orders''
       = Some \<lparr> x_pk = ''id'',
                 x_views = [(''users'', \<lparr> pkColumn = ''userId'', viewColumns = [(''userName'', ''name'')],
                                             viewMode = LIVE \<rparr>)],
                 x_viewTables = [], x_secondaryIndexes = [''userId''] \<rparr>
   \<and> getf [(''id'', Num 1), (''userId'', Num 5)] ''userId'' \<noteq> Undefined
   \<and> adapter_read (adapterOf demo_db) ''orders'' (getf [(''id'', Num 1), (''userId'', Num 5)] ''id'') = None
   \<and> fst (upsert_direct demo_parts demo_schema (x_syncORM demo_parts demo_schema ''orders'' [] True)
            ''orders'' ''id'' [(''id'', Num 1), (''userId'', Num 5)] [] demo_db) = Inl TypeError"
proof -
  have h1: "x_hasViews demo_schema" by (simp add: demo_schema_def)
  have h2: "map_of (tableInfo demo_schema) ''orders''
       = Some \<lparr> x_pk = ''id'',
                 x_views = [(''users'', \<lparr> pkColumn = ''userId'', viewColumns = [(''userName'', ''name'')],
                                             viewMode = LIVE \<rparr>)],
                 x_viewTables = [], x_secondaryIndexes = [''userId''] \<rparr>"
    by (simp add: demo_schema_def)
  have h3: "\<exists>tv \<in> set (x_views \<lparr> x_pk = ''id'',
                 x_views = [(''users'', \<lparr> pkColumn = ''userId'', viewColumns = [(''userName'', ''name'')],
                                             viewMode = LIVE \<rparr>)],
                 x_viewTables = [], x_secondaryIndexes = [''userId''] \<rparr>).
              getf [(''id'', Num 1), (''userId'', Num 5)] (pkColumn (snd tv)) \<noteq> Undefined"
    by (simp add: getf_def)
  have h4: "adapter_read (adapterOf demo_db) ''orders'' (getf [(''id'', Num 1), (''userId'', Num 5)] ''id'') = None"
    by (simp add: getf_def demo_db_def demo_adapter_def demo_rows_def)
  from upsert_direct_new_row_raises[OF h1 h2 h3, of demo_db "''id''" "[]" demo_parts
      "x_syncORM demo_parts demo_schema ''orders'' [] True"] h4
  have "fst (upsert_direct demo_parts demo_schema (x_syncORM demo_parts demo_schema ''orders'' [] True)
            ''orders'' ''id'' [(''id'', Num 1), (''userId'', Num 5)] [] demo_db) = Inl TypeError"
    by simp
  then show ?thesis using h1 h2 h4 by (simp add: getf_def)
qed

subsection \<open>The result cache of a select\<close>

text \<open>
  Claim C2 (refuted by the code). A cacheable select with a limit, run twice with no
  write in between: the first run delivers the rows cut to the limit, but the value it
  stores under the fingerprint of the query is the array of the rows selected, as it is
  after the stages that work in place, and the second run delivers that array. On the
  table \<open>tags\<close> of three rows with \<open>limit = 1\<close> the first run delivers one row and the
  second run three.
\<close>

theorem select_twice_differs:
  "fst (doQuery demo_parts flat_env demo_schema (blank_query\<lparr>limit := Some 1\<rparr>) demo_db) = Inr (Rows [tag1])
   \<and> x_cache (snd (doQuery demo_parts flat_env demo_schema (blank_query\<lparr>limit := Some 1\<rparr>) demo_db)) ''tags''
       = Some [(''select/limit 1'', [tag1, tag2, tag3])]
   \<and> fst (doQuery demo_parts flat_env demo_schema (blank_query\<lparr>limit := Some 1\<rparr>)
           (snd (doQuery demo_parts flat_env demo_schema (blank_query\<lparr>limit := Some 1\<rparr>) demo_db)))
       = Inr (Rows [tag1, tag2, tag3])"
  by code_simp

subsection \<open>The upsert on an instance table\<close>

lemma getf_setf: "getf (setf r k v) k' = (if k' = k then v else getf r k')"
  by (induction r) (auto simp: getf_def)

lemma getf_spread:
  "getf (spread a b) k = (case map_of (rev b) k of Some v \<Rightarrow> v | None \<Rightarrow> getf a k)"
  unfolding spread_def
  by (induction b arbitrary: a) (auto simp: getf_setf split: option.splits)


text \<open>
  Claim C6 (refuted by the code). An upsert on the instance table \<open>[{a: 1}]\<close> with
  \<open>where = ["a", "=", 1]\<close> and \<open>actionArgs = {a: 2}\<close>. \<open>_upsert\<close> first reads
  \<open>tableInfo[table]._pk\<close>, where the table is the row array, and raises. The branch for
  instance tables, taken by itself, spreads the row over \<open>actionArgs\<close>, so the fields of
  the row win (\<open>getf_spread\<close>) and the matching row stays \<open>{a: 1}\<close>.
\<close>

theorem instance_upsert_keeps_row:
  "fst (doQuery demo_parts flat_env demo_schema instance_upsert demo_db) = Inl TypeError
   \<and> upsert_instance flat_env instance_upsert [(0, [(''a'', Num 1)])] = Inr [[(''a'', Num 1)]]"
  by code_simp

subsection \<open>The selection by range\<close>

lemma count_up_nat: "count_up t (int n) = Some (t + int n)"
proof (induction n arbitrary: t)
  case 0
  show ?case by (subst count_up.simps) simp
next
  case (Suc n)
  have "count_up t (int (Suc n)) = count_up (t + 1) (int n)"
    by (subst count_up.simps) simp
  then show ?case using Suc[of "t + 1"] by simp
qed

lemma count_up_nonneg: "0 \<le> c \<Longrightarrow> count_up t c = Some (t + c)"
  using count_up_nat[of t "nat c"] by simp

lemma selectByRange_positive:
  "0 < lim \<Longrightarrow> fst (x_selectByRange t (lim, off) a) = Inr (rows_at a t off (off + lim))"
  by (simp add: x_selectByRange_def store_rangeRead_def bnd_def logged_def rows_at_def)

lemma selectByRange_negative:
  assumes "lim < 0"
  shows "fst (x_selectByRange t (lim, off) a)
     = Inr (rows_at a t (int (length (rowsOf a t)) + lim - off) (int (length (rowsOf a t)) - off - 1))"
proof -
  have c: "count_up (int (length (rowsOf a t)) + lim - off) (\<bar>lim\<bar> - 1)
           = Some (int (length (rowsOf a t)) - off - 1)"
    using count_up_nonneg[of "\<bar>lim\<bar> - 1" "int (length (rowsOf a t)) + lim - off"] assms by simp
  show ?thesis
    using assms c
    by (simp add: x_selectByRange_def store_rangeRead_def getIndex_count_def bnd_def logged_def
        rows_at_def Let_def)
qed


text \<open>
  Claim C7 (refuted by the code). For a positive limit the selector reads the range from
  \<open>offset\<close> to \<open>offset + limit\<close>, for a negative one from \<open>count + limit - offset\<close> to
  \<open>count - offset - 1\<close> (the two lemmas above). With an adapter that reads a range with
  its upper bound, as the negative branch and the selection on instance tables count,
  \<open>range = [2, 0]\<close> on three rows delivers three rows, not the two at the positions 0 and
  1; with an adapter that leaves the upper bound out, \<open>range = [-2, 0]\<close> delivers one row,
  not the last two.
\<close>

theorem range_read_one_row_more:
  "fst (doQuery demo_parts flat_env demo_schema (blank_query\<lparr>rangeQ := Some (2, 0)\<rparr>) demo_db)
     = Inr (Rows [tag1, tag2, tag3])
   \<and> fst (doQuery demo_parts flat_env demo_schema (blank_query\<lparr>rangeQ := Some (- 2, 0)\<rparr>) demo_db)
     = Inr (Rows [tag2, tag3])
   \<and> fst (doQuery demo_parts flat_env demo_schema (blank_query\<lparr>rangeQ := Some (2, 0)\<rparr>)
           (demo_db\<lparr>adapterOf := demo_adapter\<lparr>toInclusive := False\<rparr>\<rparr>))
     = Inr (Rows [tag1, tag2])
   \<and> fst (doQuery demo_parts flat_env demo_schema (blank_query\<lparr>rangeQ := Some (- 2, 0)\<rparr>)
           (demo_db\<lparr>adapterOf := demo_adapter\<lparr>toInclusive := False\<rparr>\<rparr>))
     = Inr (Rows [tag2])"
  by code_simp

subsection \<open>The exact full-text search\<close>

text \<open>
  Claim C4 (refuted by the code). A table with one row whose indexed text is
  \<open>brown dog brown fox\<close>, searched for \<open>brown fox\<close>: the words of the search stand in
  the text at the consecutive positions 2 and 3, but the check takes the first position
  of \<open>brown\<close> only for the second term, and the row is not selected. A row with the
  text \<open>a b x c\<close>, searched for \<open>a b c\<close>: the first term occurs once, so only the second
  term is checked, and the row is selected although the words of the search are not
  consecutive in it. The index is the one the index writer builds for the row.
\<close>

theorem search_exact_not_contiguity:
  "search_exact [(index_new_row (Num 1) (x_tokenizer (\<lambda>w. w) ''brown dog brown fox'') [],
                  x_tokenizer (\<lambda>w. w) ''brown fox'')] = []
   \<and> spec_matches (\<lambda>w. w) ''brown dog brown fox'' ''brown fox''
   \<and> search_exact [(index_new_row (Num 1) (x_tokenizer (\<lambda>w. w) ''a b x c'') [],
                    x_tokenizer (\<lambda>w. w) ''a b c'')] = [Num 1]
   \<and> \<not> spec_matches (\<lambda>w. w) ''a b x c'' ''a b c''"
  by code_simp

subsection \<open>Frozen rows\<close>

lemma null_related_frozen: "isFrozen ob \<Longrightarrow> null_related cols ob = ob"
  by (induction cols) (auto simp: assign_field_def)

lemma copy_changed_frozen: "isFrozen ob \<Longrightarrow> snd (copy_changed cols row (u, ob)) = ob"
  by (induction cols arbitrary: u) (auto simp: assign_field_def)

lemma remote_row_update_frozen:
  "isFrozen rRow \<Longrightarrow> snd (remote_row_update vd doDel row rRow) = rRow"
  by (simp add: remote_row_update_def assign_field_def null_related_frozen copy_changed_frozen)

lemma remote_row_update_frozen_delete:
  "isFrozen rRow \<Longrightarrow> viewMode vd = LIVE \<Longrightarrow> remote_row_update vd True row rRow = (True, rRow)"
  by (simp add: remote_row_update_def assign_field_def null_related_frozen)

lemma orm_row_update_copies:
  "map_sum id fieldsOf (orm_row_update rel add k (ob\<lparr>isFrozen := True\<rparr>))
     = map_sum id fieldsOf (orm_row_update rel add k (ob\<lparr>isFrozen := False\<rparr>))"
  by (auto simp: orm_row_update_def assign_field_def x_assign_def Let_def split: val.splits)

text \<open>
  Claim C9 (refuted by the code). \<open>_updateORMRows\<close> changes a copy when the row it
  fetched is frozen (\<open>orm_row_update_copies\<close>: the outcome does not depend on the row
  being frozen), but \<open>_updateRemoteViews\<close> makes no copy: it assigns to the fields of the
  row it fetched, and on a frozen row every assignment is dropped
  (\<open>remote_row_update_frozen\<close>), while \<open>doUpdate\<close> is set all the same
  (\<open>remote_row_update_frozen_delete\<close>). The deletion of the user 5, to whom an order
  refers through a LIVE view, with an adapter that hands out frozen rows: the query
  completes, the order is written back as it was and still refers to the user 5 and
  shows the name. With rows that are not frozen the same query sets the key column of
  the order to \<open>null\<close>.
\<close>

theorem remote_view_update_on_frozen_row:
  "fst (doQuery demo_parts flat_env demo_schema delete_user5 (orders_db True))
       = Inr (Affected ''1 row(s) deleted.'' [Num 5] [[(''id'', Num 5), (''name'', Str ''Ada'')]])
   \<and> rowsOf (adapterOf (snd (doQuery demo_parts flat_env demo_schema delete_user5 (orders_db True)))) ''users''
       = []
   \<and> rowsOf (adapterOf (snd (doQuery demo_parts flat_env demo_schema delete_user5 (orders_db True)))) ''orders''
       = [(Num 1, [(''id'', Num 1), (''userId'', Num 5), (''userName'', Str ''Ada'')])]
   \<and> oplog (adapterOf (snd (doQuery demo_parts flat_env demo_schema delete_user5 (orders_db True))))
       = [OpSelect ''users'', OpDelete ''users'' (Num 5), OpIndexRead ''orders'' ''userId'' (Num 5),
          OpWrite ''orders'' (Num 1)]
   \<and> rowsOf (adapterOf (snd (doQuery demo_parts flat_env demo_schema delete_user5 (orders_db False)))) ''orders''
       = [(Num 1, [(''id'', Num 1), (''userId'', Null), (''userName'', Str ''Ada''), (''name'', Null)])]"
  by code_simp

subsection \<open>The cache after a write\<close>

text \<open>
  The steps of a write other than \<open>this._store._cache[T] = {}\<close> itself leave an empty
  cache of \<open>T\<close> empty: the steps on the adapter do not touch the cache, and the upserts
  that the synchronisation of the relationships issues empty caches, of the related
  tables.
\<close>

lemma keepsI: "(\<And>d. I d \<Longrightarrow> I (snd (m d))) \<Longrightarrow> keeps I m"
  by (simp add: keeps_def)

lemma keepsD: "keeps I m \<Longrightarrow> I d \<Longrightarrow> I (snd (m d))"
  by (simp add: keeps_def)

lemma keeps_ret: "keeps I (ret x)"
  by (simp add: keeps_def ret_def)

lemma keeps_raise: "keeps I (raise err)"
  by (simp add: keeps_def raise_def)

lemma keeps_lift: "keeps I (lift r)"
  by (simp add: keeps_def lift_def)

lemma keeps_info: "keeps I (info s t)"
  by (simp add: info_def keeps_ret keeps_raise split: option.splits)

lemma keeps_bnd:
  assumes "keeps I m" and "\<And>x. keeps I (f x)"
  shows "keeps I (bnd m f)"
proof (rule keepsI)
  fix d assume d: "I d"
  obtain r d1 where m: "m d = (r, d1)" by (cases "m d")
  have d1: "I d1" using keepsD[OF assms(1) d] m by simp
  show "I (snd (bnd m f d))"
  proof (cases r)
    case (Inl err)
    then show ?thesis using m d1 by (simp add: bnd_def)
  next
    case (Inr x)
    then show ?thesis using m keepsD[OF assms(2) d1, of x] by (simp add: bnd_def)
  qed
qed

lemma keeps_each:
  assumes "\<And>x. keeps I (f x)"
  shows "keeps I (each f xs)"
  by (induction xs) (auto intro!: keeps_ret keeps_bnd assms)

lemma keeps_if: "keeps I m \<Longrightarrow> keeps I n \<Longrightarrow> keeps I (if b then m else n)"
  by simp

lemma keeps_on_adapter: "keeps (cache_empty t) (on_adapter m)"
  by (simp add: keeps_def on_adapter_def cache_empty_def split: prod.splits)

lemma keeps_clear_cache: "keeps (cache_empty t) (clear_cache t')"
  by (simp add: keeps_def clear_cache_def cache_empty_def)

lemma keeps_upsert_direct:
  assumes "\<And>old new. keeps (cache_empty t) (sync old new)"
  shows "keeps (cache_empty t) (upsert_direct P s sync t' pk row cmts)"
  unfolding upsert_direct_def
  by (intro keeps_bnd keeps_clear_cache keeps_on_adapter keeps_ret keeps_if assms)

lemma keeps_upsert_orm_skip: "keeps (cache_empty t) (upsert_orm_skip P s t' row)"
  unfolding upsert_orm_skip_def
  by (intro keeps_bnd keeps_info keeps_upsert_direct keeps_ret)

lemma keeps_updateORMRows:
  assumes "\<And>t' r. keeps (cache_empty t) (upsert t' r)"
  shows "keeps (cache_empty t) (x_updateORMRows s upsert rel ids add k)"
proof -
  have row: "\<And>row. keeps (cache_empty t) (\<lambda>d.
            (case orm_row_update rel add k \<lparr> isFrozen = freezes (adapterOf d), fieldsOf = row \<rparr> of
               Inl err \<Rightarrow> raise err d
             | Inr newRow \<Rightarrow> upsert (x_fromTable rel) (fieldsOf newRow) d))"
  proof (rule keepsI)
    fix row d assume d: "cache_empty t d"
    show "cache_empty t (snd (case orm_row_update rel add k \<lparr> isFrozen = freezes (adapterOf d), fieldsOf = row \<rparr> of
               Inl err \<Rightarrow> raise err d
             | Inr newRow \<Rightarrow> upsert (x_fromTable rel) (fieldsOf newRow) d))"
      using d keepsD[OF assms d] by (auto simp: raise_def split: sum.splits)
  qed
  have reads: "keeps (cache_empty t) (case ids of Arr pks \<Rightarrow> on_adapter (store_read (x_fromTable rel) pks)
          | _ \<Rightarrow> raise TypeError)"
    by (cases ids) (simp_all add: keeps_raise keeps_on_adapter)
  show ?thesis
    unfolding x_updateORMRows_def
    by (intro keeps_bnd keeps_info reads keeps_each row keeps_ret)
qed

lemma keeps_syncORM_add:
  assumes "\<And>t' r. keeps (cache_empty t) (upsert t' r)"
  shows "keeps (cache_empty t) (syncORM_add s upsert pk rel old new)"
  unfolding syncORM_add_def Let_def
  by (cases old)
     (auto intro!: keeps_bnd keeps_ret keeps_lift keeps_updateORMRows assms)

lemma keeps_syncORM_del:
  assumes "\<And>t' r. keeps (cache_empty t) (upsert t' r)"
  shows "keeps (cache_empty t) (syncORM_del s upsert pk rel old)"
  unfolding syncORM_del_def
  by (intro keeps_updateORMRows assms)

lemma keeps_syncORM_rel:
  "keeps (cache_empty t) (bnd (info s t') (\<lambda>ti.
       if is_add then
         (case new of
            None \<Rightarrow> raise TypeError
          | Some n \<Rightarrow> syncORM_add s (upsert_orm_skip P s) (x_pk ti) rel old n)
       else
         (case old of
            None \<Rightarrow> raise TypeError
          | Some ol \<Rightarrow> syncORM_del s (upsert_orm_skip P s) (x_pk ti) rel ol)))"
proof (rule keeps_bnd[OF keeps_info])
  fix ti
  show "keeps (cache_empty t) (if is_add then
         (case new of
            None \<Rightarrow> raise TypeError
          | Some n \<Rightarrow> syncORM_add s (upsert_orm_skip P s) (x_pk ti) rel old n)
       else
         (case old of
            None \<Rightarrow> raise TypeError
          | Some ol \<Rightarrow> syncORM_del s (upsert_orm_skip P s) (x_pk ti) rel ol))"
    by (cases new; cases old)
       (simp_all add: keeps_raise keeps_syncORM_add keeps_syncORM_del keeps_upsert_orm_skip)
qed

lemma keeps_syncORM: "keeps (cache_empty t) (x_syncORM P s t' cmts is_add oldRows newRows)"
proof -
  have pair: "keeps (cache_empty t) (case on of (old, new) \<Rightarrow>
                      bnd (each (\<lambda>rel.
                             bnd (info s t') (\<lambda>ti.
                               if is_add then
                                 (case new of
                                    None \<Rightarrow> raise TypeError
                                  | Some n \<Rightarrow> syncORM_add s (upsert_orm_skip P s) (x_pk ti) rel old n)
                               else
                                 (case old of
                                    None \<Rightarrow> raise TypeError
                                  | Some ol \<Rightarrow> syncORM_del s (upsert_orm_skip P s) (x_pk ti) rel ol)))
                           useRelations) (\<lambda>us. ret ()))" for useRelations on
  proof (cases on)
    case (Pair old new)
    show ?thesis
      unfolding Pair prod.case
      by (rule keeps_bnd[OF keeps_each[OF keeps_syncORM_rel] keeps_ret])
  qed
  have all: "keeps (cache_empty t) (bnd (each (\<lambda>(old, new).
                      bnd (each (\<lambda>rel.
                             bnd (info s t') (\<lambda>ti.
                               if is_add then
                                 (case new of
                                    None \<Rightarrow> raise TypeError
                                  | Some n \<Rightarrow> syncORM_add s (upsert_orm_skip P s) (x_pk ti) rel old n)
                               else
                                 (case old of
                                    None \<Rightarrow> raise TypeError
                                  | Some ol \<Rightarrow> syncORM_del s (upsert_orm_skip P s) (x_pk ti) rel ol)))
                           useRelations) (\<lambda>us. ret ()))
                    (pair_up oldRows newRows)) (\<lambda>us. ret ()))" for useRelations
    by (rule keeps_bnd[OF keeps_each[OF pair] keeps_ret])
  show ?thesis
    unfolding x_syncORM_def
    by (simp add: keeps_ret all split: option.splits)
qed










lemma bnd_Inr: "m d = (Inr x, d1) \<Longrightarrow> bnd m f d = f x d1"
  by (simp add: bnd_def)

lemma bnd_Inl: "m d = (Inl err, d1) \<Longrightarrow> bnd m f d = (Inl err, d1)"
  by (simp add: bnd_def)



lemma info_Some: "map_of (tableInfo s) t = Some ti \<Longrightarrow> info s t d = (Inr ti, d)"
  by (simp add: info_def ret_def)

lemma info_None: "map_of (tableInfo s) t = None \<Longrightarrow> info s t d = (Inl TypeError, d)"
  by (simp add: info_def raise_def)










text \<open>
  An upsert whose WHERE clause selects no row after a full table scan with a nested
  select: the nested select leaves its rows in the cache, and the upsert does not empty
  it.
\<close>

lemma upsert_without_rows_after_nested_select:
  "fst (doQuery demo_parts flat_env demo_schema upsert_search_or demo_db)
       = Inr (Affected ''0 row(s) modfied.'' [] [])
   \<and> x_cache demo_db ''tags'' = Some []
   \<and> x_cache (snd (doQuery demo_parts flat_env demo_schema upsert_search_or demo_db)) ''tags''
       = Some [(''select'', [])]"
  by code_simp






subsection \<open>The checks of a query\<close>














lemma ro_ret: "reads_only (ret x)"
  by (simp add: reads_only_def ret_def)

lemma ro_raise: "reads_only (raise err)"
  by (simp add: reads_only_def raise_def)

lemma ro_lift: "reads_only (lift r)"
  by (simp add: reads_only_def lift_def)

lemma ro_info: "reads_only (info s t)"
  by (simp add: info_def ro_ret ro_raise split: option.splits)

lemma ro_bnd:
  assumes "reads_only m" and "\<And>x. reads_only (f x)"
  shows "reads_only (bnd m f)"
  unfolding reads_only_def
proof
  fix a
  obtain r a1 where m: "m a = (r, a1)" by (cases "m a")
  have a1: "rowsOf a1 = rowsOf a \<and> filter is_write (oplog a1) = filter is_write (oplog a)"
    using assms(1) m by (auto simp: reads_only_def dest: spec[where x = a])
  show "rowsOf (snd (bnd m f a)) = rowsOf a \<and>
        filter is_write (oplog (snd (bnd m f a))) = filter is_write (oplog a)"
  proof (cases r)
    case (Inl err)
    then show ?thesis using m a1 by (simp add: bnd_def)
  next
    case (Inr x)
    have "rowsOf (snd (f x a1)) = rowsOf a1 \<and>
          filter is_write (oplog (snd (f x a1))) = filter is_write (oplog a1)"
      using assms(2)[of x] by (simp add: reads_only_def)
    then show ?thesis using m a1 Inr by (simp add: bnd_def)
  qed
qed

lemma ro_each:
  assumes "\<And>x. reads_only (f x)"
  shows "reads_only (each f xs)"
  by (induction xs) (auto intro!: ro_ret ro_bnd assms)
















text \<open>
  The select of a query whose WHERE clause is a single condition issues no nested
  select, whatever nested select it is given; so the nested select of a full table scan
  is the select of the nested query.
\<close>

lemma select_single_condition:
  assumes "whereQ q = Some (WArr (WSingle p c v))"
  shows "x_select_with P e s sel q = x_select_with P e s sel' q"
proof -
  have scan: "x_fullTableScan e (sel t) t PK (whereQ q) = x_fullTableScan e (sel' t) t PK (whereQ q)"
    for t PK
    by (simp add: assms x_fullTableScan_def)
  have "x_RowSelection P e s (sel t) q t = x_RowSelection P e s (sel' t) q t" for t
    unfolding x_RowSelection_def by (simp only: scan)
  then have "x_getRows_with P e s sel q = x_getRows_with P e s sel' q"
    by (simp add: x_getRows_with_def split: table_ref.splits)
  then show ?thesis by (simp add: x_select_with_def)
qed

lemma nested_select_any:
  "nested_select P e s t (WSingle p c v) =
     bnd (x_select_with P e s sel (nested_query t (WSingle p c v))) (\<lambda>r.
       case r of Rows rows \<Rightarrow> ret rows | _ \<Rightarrow> raise TypeError)"
proof -
  have "x_select_with P e s (\<lambda>t' w'. raise TypeError) (nested_query t (WSingle p c v))
          = x_select_with P e s sel (nested_query t (WSingle p c v))"
    by (rule select_single_condition[where p = p and c = c and v = v]) (simp add: nested_query_def)
  then show ?thesis unfolding nested_select_def by (rule arg_cong2[OF _ refl])
qed















text \<open>
  A range with the limit 0 takes the branch of \<open>_selectByRange\<close> for a limit that is not
  positive, where the loop \<open>while (counter--)\<close> starts from \<open>-1\<close> and does not end: the
  selection does not return.
\<close>

lemma count_up_Some:
  assumes "count_up t c = Some y"
  shows "0 \<le> c"
proof (rule count_up.raw_induct[where P = "\<lambda>t c y. 0 \<le> c", OF _ assms])
  fix f :: "int \<Rightarrow> int \<Rightarrow> int option" and t' c' y'
  assume ih: "\<And>t c y. f t c = Some y \<Longrightarrow> 0 \<le> c"
    and step: "(if c' = 0 then Some t' else f (t' + 1) (c' - 1)) = Some y'"
  show "0 \<le> c'"
  proof (cases "c' = 0")
    case True
    then show ?thesis by simp
  next
    case False
    then have "f (t' + 1) (c' - 1) = Some y'" using step by simp
    then have "0 \<le> c' - 1" by (rule ih)
    then show ?thesis by simp
  qed
qed

lemma count_up_negative: "c < 0 \<Longrightarrow> count_up t c = None"
  using count_up_Some[of t c] by (cases "count_up t c") auto

lemma range_zero_never_returns:
  assumes "table q = TName t" and "rangeQ q = Some (0, off)" and "whereQ q = None"
    and "trie q = None" and "joinQ q = None"
  shows "fst (x_getRows P e s q d) = Inl NoReturn"
proof -
  have "fst (x_selectByRange t (0, off) a) = Inl NoReturn" for a
    by (simp add: x_selectByRange_def getIndex_count_def bnd_def logged_def Let_def
        count_up_negative raise_def)
  then have "fst (on_adapter (x_selectByRange t (0, off)) d) = Inl NoReturn"
    by (simp add: on_adapter_def split: prod.splits) (metis fst_conv)
  then show ?thesis
    using assms by (simp add: x_getRows_def x_getRows_with_def x_RowSelection_def)
qed







end
